theory Spec2Isabelle
  imports Complex_Main "HOL-Library.AList"
begin

section \<open>Python values, errors and containers\<close>

text \<open>
  The repository is Python 3 (\<^verbatim>\<open>super().__init__\<close> without arguments in
  \<^verbatim>\<open>MixtureModel\<close>). Every \<^verbatim>\<open>raise\<close> of the source is a branch that returns
  \<open>Inl\<close> of an error. The source raises \<^verbatim>\<open>ValueError\<close> with different messages;
  the constructors below keep the kinds apart:
  \<^item> \<open>FrozenStateViolation\<close>: "This distribution is frozen! ...", "This distribution is
    not frozen, but no parameters were supplied ..." and "This distribution is already
    frozen! ...";
  \<^item> \<open>StructureMismatch\<close>: "Inconsistency in nested list structure of arguments
    detected! ..." of \<^verbatim>\<open>apply_f\<close>;
  \<^item> \<open>MissingWeights\<close>: "No mixing weights supplied!";
  \<^item> \<open>ArgumentInferenceFailure\<close>: "Failed to find any arguments for this
    distribution! ...";
  \<^item> \<open>ValueError\<close>: every other \<^verbatim>\<open>ValueError\<close> (a failed tuple unpacking, a
    failed reshape);
  \<^item> \<open>IndexError\<close>, \<open>TypeError\<close>, \<open>AttributeError\<close>: the interpreter's own.
\<close>

datatype error =
    FrozenStateViolation
  | StructureMismatch
  | MissingWeights
  | ArgumentInferenceFailure
  | ValueError
  | IndexError
  | TypeError
  | AttributeError

text \<open>
  A nested structure of Python lists: a value is either a list (of values) or anything
  else (a leaf; \<^verbatim>\<open>isinstance(item, list)\<close> is all \<^verbatim>\<open>apply_f\<close> asks).
\<close>

datatype 'a pyobj = Leaf 'a | PyList "'a pyobj list"

fun is_list :: "'a pyobj \<Rightarrow> bool" where
  "is_list (PyList xs) = True"
| "is_list (Leaf a) = False"

fun items :: "'a pyobj \<Rightarrow> 'a pyobj list" where
  "items (PyList xs) = xs"
| "items (Leaf a) = []"

text \<open>
  \<^verbatim>\<open>list(map(g, xs))\<close> where \<open>g\<close> may raise: the elements are computed from left
  to right and the first exception ends the call.
\<close>

fun mapM :: "('a \<Rightarrow> error + 'b) \<Rightarrow> 'a list \<Rightarrow> error + 'b list" where
  "mapM g [] = Inr []"
| "mapM g (x # xs) =
     (case g x of
        Inl e \<Rightarrow> Inl e
      | Inr y \<Rightarrow> (case mapM g xs of Inl e \<Rightarrow> Inl e | Inr ys \<Rightarrow> Inr (y # ys)))"

lemma mapM_cong [fundef_cong]:
  "xs = ys \<Longrightarrow> (\<And>x. x \<in> set ys \<Longrightarrow> g x = h x) \<Longrightarrow> mapM g xs = mapM h ys"
  by (induction ys arbitrary: xs) (auto split: sum.splits)

text \<open>
  The argument tuples of \<^verbatim>\<open>map(g, *iters)\<close> in Python 3: the \<open>k\<close>-th tuple holds the
  \<open>k\<close>-th element of every iterable, and the iteration stops with the shortest one.
\<close>

definition zip_star :: "'a list list \<Rightarrow> 'a list list" where
  "zip_star xss =
     (if xss = [] then []
      else map (\<lambda>k. map (\<lambda>xs. xs ! k) xss) [0..<Min (set (map length xss))])"

lemma size_zip_star:
  assumes "iters \<noteq> []" and "list_all is_list iters"
    and "col \<in> set (zip_star (map items iters))"
  shows "size_list size col < size_list size iters"
proof -
  from assms obtain k where k: "k < Min (set (map length (map items iters)))"
    and col: "col = map (\<lambda>xs. xs ! k) (map items iters)"
    by (auto simp: zip_star_def)
  have klen: "k < length (items it)" if "it \<in> set iters" for it
  proof -
    have "Min (set (map length (map items iters))) \<le> length (items it)"
      using that by (intro Min_le) auto
    with k show ?thesis by simp
  qed
  have lt: "size (items it ! k) < size it" if "it \<in> set iters" for it
  proof (cases it)
    case (Leaf a)
    with that assms(2) show ?thesis by (auto simp: list_all_iff)
  next
    case (PyList xs)
    with klen[OF that] have "xs ! k \<in> set xs" by simp
    then have "size (xs ! k) \<le> size_list size xs"
      by (simp add: size_list_estimation')
    with PyList show ?thesis by simp
  qed
  have "size_list size (map (\<lambda>it. items it ! k) its) < size_list size its"
    if "its \<noteq> []" "set its \<subseteq> set iters" for its
    using that
  proof (induction its)
    case Nil
    then show ?case by simp
  next
    case (Cons a its)
    then have "size (items a ! k) < size a" using lt by simp
    moreover have "size_list size (map (\<lambda>it. items it ! k) its) \<le> size_list size its"
    proof (cases "its = []")
      case True
      then show ?thesis by simp
    next
      case False
      with Cons show ?thesis by simp
    qed
    ultimately show ?case by simp
  qed
  from this[of iters] assms(1) show ?thesis by (simp add: col comp_def)
qed

section \<open>StructuralMap: \<^verbatim>\<open>apply_f\<close> (common.py)\<close>

text \<open>
  \<^verbatim>\<open>
  def apply_f(f,*iters):
      if all(isinstance(item,list) for item in iters):
          return list(map(lambda *items: apply_f(f,*items), *iters))
      elif any(isinstance(item,list) for item in iters):
          raise ValueError("Inconsistency in nested list structure ...")
      else:
          return f(*iters)
  \<close>
  The leaf function \<open>f\<close> is any Python callable, so it may raise: it returns
  \<open>error + 'b pyobj\<close>. With no iterable at all \<^verbatim>\<open>all(...)\<close> is true and
  \<^verbatim>\<open>map\<close> with the function alone raises \<^verbatim>\<open>TypeError\<close>.
\<close>

function apply_f :: "('a pyobj list \<Rightarrow> error + 'b pyobj) \<Rightarrow> 'a pyobj list \<Rightarrow> error + 'b pyobj" where
  "apply_f f iters =
     (if list_all is_list iters then
        (if iters = [] then Inl TypeError
         else (case mapM (\<lambda>col. apply_f f col) (zip_star (map items iters)) of
                 Inl e \<Rightarrow> Inl e
               | Inr ys \<Rightarrow> Inr (PyList ys)))
      else if list_ex is_list iters then Inl StructureMismatch
      else f iters)"
  by pat_completeness auto
termination
  by (relation "measure (\<lambda>(f, iters). size_list size iters)") (auto intro: size_zip_star)

declare apply_f.simps [simp del]

text \<open>
  The nodes of a lock-step descent: \<open>has_mismatch iters\<close> holds when, at the root or
  at a node that the descent of \<^verbatim>\<open>apply_f\<close> pairs up (positions beyond the shortest
  list are never paired), some of the corresponding inputs are lists and others are not.
\<close>

function has_mismatch :: "'a pyobj list \<Rightarrow> bool" where
  "has_mismatch iters =
     (if list_all is_list iters then
        (if iters = [] then False
         else list_ex (\<lambda>col. has_mismatch col) (zip_star (map items iters)))
      else list_ex is_list iters)"
  by pat_completeness auto
termination
  by (relation "measure (\<lambda>iters. size_list size iters)") (auto intro: size_zip_star)

declare has_mismatch.simps [simp del]

section \<open>Arrays\<close>

text \<open>
  A numpy array: its shape and its elements in row-major order. The last axis indexes
  the variate components, so an array of shape \<open>(..., k)\<close> is a sequence of rows of
  \<open>k\<close> elements each. The code reads and rearranges elements and never computes with
  them here, so the element type is arbitrary.
\<close>

datatype 'a ndarray = NDArray (shape: "nat list") (elems: "'a list")

definition last_dim :: "'a ndarray \<Rightarrow> nat" where
  "last_dim A = (case shape A of [] \<Rightarrow> 0 | d # ds \<Rightarrow> last (d # ds))"

definition rows :: "'a ndarray \<Rightarrow> 'a list list" where
  "rows A =
     map (\<lambda>r. take (last_dim A) (drop (r * last_dim A) (elems A)))
       [0..<length (elems A) div last_dim A]"

text \<open>
  \<^verbatim>\<open>A.reshape((-1, A.shape[-1]))\<close>: \<^verbatim>\<open>A.shape[-1]\<close> raises \<^verbatim>\<open>IndexError\<close> on a
  0-dimensional array, and numpy refuses to infer the \<^verbatim>\<open>-1\<close> when the last axis has
  length 0 (\<^verbatim>\<open>ValueError\<close>).
\<close>

definition almost_flatten :: "'a ndarray \<Rightarrow> error + 'a ndarray" where
  "almost_flatten A =
     (if shape A = [] then Inl IndexError
      else if last (shape A) = 0 then Inl ValueError
      else Inr (NDArray [prod_list (butlast (shape A)), last (shape A)] (elems A)))"

text \<open>
  \<^verbatim>\<open>B[i,:]\<close> on a two-dimensional array with a Python integer \<open>i\<close>: a negative
  index counts from the end, an index out of range raises \<^verbatim>\<open>IndexError\<close>.
\<close>

fun index_row :: "'a ndarray \<Rightarrow> int \<Rightarrow> error + 'a ndarray" where
  "index_row (NDArray [m, k] xs) i =
     (let r = (if i < 0 then i + int m else i)
      in if 0 \<le> r \<and> r < int m then Inr (NDArray [k] (take k (drop (nat r * k) xs)))
         else Inl IndexError)"
| "index_row A i = Inl IndexError"

text \<open>
  \<^verbatim>\<open>B[i:j,:]\<close>: the bounds of a slice are clipped to the axis (a negative bound counts
  from the end first), and a slice never raises.
\<close>

definition slice_bound :: "nat \<Rightarrow> int \<Rightarrow> nat" where
  "slice_bound m i = (if i < 0 then nat (max 0 (i + int m)) else min m (nat i))"

fun slice_rows :: "'a ndarray \<Rightarrow> int \<Rightarrow> int \<Rightarrow> error + 'a ndarray" where
  "slice_rows (NDArray [m, k] xs) i j =
     (let a = slice_bound m i; b = slice_bound m j; n = b - a
      in Inr (NDArray [n, k] (take (n * k) (drop (a * k) xs))))"
| "slice_rows A i j = Inl IndexError"

text \<open>\<^verbatim>\<open>B[r]\<close>: the \<open>r\<close>-th sub-array along the first axis.\<close>

definition first_axis_row :: "'a ndarray \<Rightarrow> nat \<Rightarrow> error + 'a ndarray" where
  "first_axis_row B r =
     (case shape B of
        [] \<Rightarrow> Inl IndexError
      | m # sh \<Rightarrow>
          if r < m then Inr (NDArray sh (take (prod_list sh) (drop (r * prod_list sh) (elems B))))
          else Inl IndexError)"

text \<open>
  \<^verbatim>\<open>list(v)\<close>: a list is copied; an array is iterated along its first axis (its
  elements are the sub-arrays \<^verbatim>\<open>v[0], v[1], ...\<close>, numpy scalars for a one-dimensional
  array, here arrays of shape \<open>()\<close>); a 0-dimensional array is not iterable.
\<close>

fun py_list :: "'a ndarray pyobj \<Rightarrow> error + 'a ndarray pyobj list" where
  "py_list (PyList xs) = Inr xs"
| "py_list (Leaf A) =
     (case shape A of
        [] \<Rightarrow> Inl TypeError
      | m # sh \<Rightarrow>
          Inr (map (\<lambda>r. Leaf (NDArray sh (take (prod_list sh) (drop (r * prod_list sh) (elems A)))))
                 [0..<m]))"

section \<open>DataSlicer: \<^verbatim>\<open>get_data_slice\<close> (common.py)\<close>

text \<open>
  \<^verbatim>\<open>
  def get_data_slice(x,i,j=None):
      data, size = x
      if j==None:
         data_slice = list(apply_f(lambda A: almost_flatten(A)[i,:],data))
         slice_length = 1
      else:
         data_slice = list(apply_f(lambda A: almost_flatten(A)[i:j,:],data))
         slice_length = j-i
      return data_slice, (slice_length,size[-1])
  \<close>
  (\<open>sz\<close> stands for the source's \<^verbatim>\<open>size\<close>, a tuple.) The two leaf functions are
  \<open>single_leaf i\<close> and \<open>range_leaf i j\<close>; \<^verbatim>\<open>apply_f\<close> calls them with one argument.
\<close>

fun single_leaf :: "int \<Rightarrow> 'a ndarray pyobj list \<Rightarrow> error + 'a ndarray pyobj" where
  "single_leaf i [Leaf A] =
     (case almost_flatten A of
        Inl e \<Rightarrow> Inl e
      | Inr B \<Rightarrow> (case index_row B i of Inl e \<Rightarrow> Inl e | Inr R \<Rightarrow> Inr (Leaf R)))"
| "single_leaf i args = Inl TypeError"

fun range_leaf :: "int \<Rightarrow> int \<Rightarrow> 'a ndarray pyobj list \<Rightarrow> error + 'a ndarray pyobj" where
  "range_leaf i j [Leaf A] =
     (case almost_flatten A of
        Inl e \<Rightarrow> Inl e
      | Inr B \<Rightarrow> (case slice_rows B i j of Inl e \<Rightarrow> Inl e | Inr R \<Rightarrow> Inr (Leaf R)))"
| "range_leaf i j args = Inl TypeError"

definition get_data_slice ::
  "'a ndarray pyobj \<times> 's list \<Rightarrow> int \<Rightarrow> int option
     \<Rightarrow> error + ('a ndarray pyobj list \<times> (int \<times> 's))" where
  "get_data_slice x i j =
     (case x of (data, sz) \<Rightarrow>
        (case (case j of
                 None \<Rightarrow>
                   (case apply_f (single_leaf i) [data] of
                      Inl e \<Rightarrow> Inl e
                    | Inr v \<Rightarrow> (case py_list v of Inl e \<Rightarrow> Inl e | Inr data_slice \<Rightarrow> Inr (data_slice, 1)))
               | Some j' \<Rightarrow>
                   (case apply_f (range_leaf i j') [data] of
                      Inl e \<Rightarrow> Inl e
                    | Inr v \<Rightarrow> (case py_list v of Inl e \<Rightarrow> Inl e | Inr data_slice \<Rightarrow> Inr (data_slice, j' - i))))
         of
           Inl e \<Rightarrow> Inl e
         | Inr (data_slice, slice_length) \<Rightarrow>
             (if sz = [] then Inl IndexError else Inr (data_slice, (slice_length, last sz)))))"

text \<open>
  "Taking the sole row" of a leaf of a range slice: \<^verbatim>\<open>B[0]\<close> of an array that has
  exactly one row along its first axis.
\<close>

fun sole_row :: "'a ndarray pyobj list \<Rightarrow> error + 'a ndarray pyobj" where
  "sole_row [Leaf B] =
     (if take 1 (shape B) = [1] then
        (case first_axis_row B 0 of Inl e \<Rightarrow> Inl e | Inr R \<Rightarrow> Inr (Leaf R))
      else Inl IndexError)"
| "sole_row args = Inl TypeError"

section \<open>Splitting data between submodels\<close>

text \<open>\<^verbatim>\<open>x[..., lo:hi]\<close>: the columns \<open>lo \<le> c < hi\<close> of every row.\<close>

definition last_axis_slice :: "nat \<Rightarrow> nat \<Rightarrow> 'a ndarray \<Rightarrow> 'a ndarray" where
  "last_axis_slice lo hi A =
     NDArray (butlast (shape A) @ [min hi (last_dim A) - min lo (last_dim A)])
       (concat (map (\<lambda>row. take (hi - lo) (drop lo row)) (rows A)))"

text \<open>
  Modelled from the spec: \<^verbatim>\<open>split_data\<close> of \<^verbatim>\<open>JMCtools.common\<close>, which
  \<^verbatim>\<open>ListModel.split_data\<close> calls as \<^verbatim>\<open>c.split_data(samples,self.dims)\<close> and which is not
  among the source files. The spec: it cuts the last axis of \<open>x\<close> "into per-submodel
  chunks sized by each submodel's declared variate dimensionality, in submodel order".
  The first chunk is cut off the front of every row, and the rest of the rows is cut
  for the remaining submodels.
\<close>

fun c_split_data :: "'a ndarray \<Rightarrow> nat list \<Rightarrow> 'a ndarray list" where
  "c_split_data x [] = []"
| "c_split_data x (d # ds) =
     last_axis_slice 0 d x # c_split_data (last_axis_slice d (last_dim x) x) ds"

section \<open>Submodels, parameters and the store\<close>

text \<open>
  A parameter mapping (the keyword arguments of one submodel) is a Python dict from
  names to numbers: an association list with distinct keys, in insertion order. The
  empty dict \<^verbatim>\<open>{}\<close> is \<open>[]\<close>. Densities are evaluated over the reals (numpy's
  element-wise \<^verbatim>\<open>exp\<close>, \<^verbatim>\<open>+\<close> and \<^verbatim>\<open>*\<close> at one point of the broadcast result).
\<close>

type_synonym pars = "(string \<times> real) list"

text \<open>
  An optional argument as the code tests it: \<^verbatim>\<open>None\<close>, a value that equals
  \<^verbatim>\<open>False\<close>, or a proper value.
\<close>

datatype 'a pyarg = PyNone | PyFalse | PyVal 'a

text \<open>
  A distribution-like object (an external collaborator): it may have a \<^verbatim>\<open>logpdf\<close>
  and a \<^verbatim>\<open>logpmf\<close> method (a missing attribute is \<open>None\<close>; looking it up raises
  \<^verbatim>\<open>AttributeError\<close>), and it may be callable with keyword parameters to give a frozen
  copy. Every method may raise.
\<close>

type_synonym 'x logpdf_fn = "'x \<Rightarrow> pars \<Rightarrow> error + real"

datatype 'x dist = Dist
  (logpdf_m: "'x logpdf_fn option")
  (logpmf_m: "'x logpdf_fn option")
  (call_m: "(pars \<Rightarrow> error + 'x dist) option")

fun bindE :: "error + 'a \<Rightarrow> ('a \<Rightarrow> error + 'b) \<Rightarrow> error + 'b" where
  "bindE (Inl e) k = Inl e"
| "bindE (Inr v) k = k v"

text \<open>\<^verbatim>\<open>xs[i]\<close> for an index \<open>i \<ge> 0\<close>.\<close>

definition item :: "'a list \<Rightarrow> nat \<Rightarrow> error + 'a" where
  "item xs i = (if i < length xs then Inr (xs ! i) else Inl IndexError)"

text \<open>
  \<^verbatim>\<open>
  try:    _logpdf = m.logpdf(x,**parameters)
  except AttributeError:
          _logpdf = m.logpmf(x,**parameters)
  \<close>
\<close>

definition native_logpdf :: "'x dist \<Rightarrow> 'x \<Rightarrow> pars \<Rightarrow> error + real" where
  "native_logpdf m x p =
     (case (case logpdf_m m of None \<Rightarrow> Inl AttributeError | Some f \<Rightarrow> f x p) of
        Inl AttributeError \<Rightarrow> (case logpmf_m m of None \<Rightarrow> Inl AttributeError | Some g \<Rightarrow> g x p)
      | r \<Rightarrow> r)"

text \<open>
  The store. \<^verbatim>\<open>JointDist\<close> keeps references to two Python lists, which other objects
  and the caller may share: the list of parameter mappings and the list of log-density
  replacements. A list object lives at an address; a new list takes the next free
  address.
\<close>

type_synonym addr = nat

record 'x heap =
  par_lists :: "addr \<Rightarrow> pars list"
  next_par :: addr
  ovr_lists :: "addr \<Rightarrow> 'x logpdf_fn option list"
  next_ovr :: addr

definition new_par_list :: "'x heap \<Rightarrow> pars list \<Rightarrow> addr \<times> 'x heap" where
  "new_par_list h ps =
     (next_par h, h\<lparr>par_lists := (par_lists h)(next_par h := ps), next_par := Suc (next_par h)\<rparr>)"

definition new_ovr_list :: "'x heap \<Rightarrow> 'x logpdf_fn option list \<Rightarrow> addr \<times> 'x heap" where
  "new_ovr_list h fs =
     (next_ovr h, h\<lparr>ovr_lists := (ovr_lists h)(next_ovr h := fs), next_ovr := Suc (next_ovr h)\<rparr>)"

section \<open>CompositeModelBase: \<^verbatim>\<open>ListModel\<close>\<close>

text \<open>
  A submodel entry: \<^verbatim>\<open>(m,d) = s\<close> succeeds for a pair and raises \<^verbatim>\<open>TypeError\<close> for a
  bare object, which then has dimension 1.
\<close>

datatype 'x entry = Bare "'x dist" | WithDim "'x dist" nat

fun entry_model :: "'x entry \<Rightarrow> 'x dist" where
  "entry_model (Bare m) = m"
| "entry_model (WithDim m d) = m"

fun entry_dim :: "'x entry \<Rightarrow> nat" where
  "entry_dim (Bare m) = 1"
| "entry_dim (WithDim m d) = d"

text \<open>
  The own parameters of a composite have type \<open>'p\<close>: for \<^verbatim>\<open>JointDist\<close> a reference
  to the list of parameter mappings, for \<^verbatim>\<open>MixtureModel\<close> the weights.
\<close>

record ('x, 'p) ListModel =
  N_submodels :: nat
  parameters :: "'p pyarg"
  frozen :: bool
  dims :: "nat list"
  submodels :: "'x dist list"

text \<open>
  \<^verbatim>\<open>
  def __init__(self, submodels, parameters=None, frozen=False):
      self.N_submodels = len(submodels)
      self.parameters = parameters
      if self.parameters==None or self.parameters==False:
          self.frozen = False
      else:
          self.frozen = True
      if frozen is True:
          self.frozen = True
      ...
  \<close>
\<close>

definition ListModel_init :: "'x entry list \<Rightarrow> 'p pyarg \<Rightarrow> bool \<Rightarrow> ('x, 'p) ListModel" where
  "ListModel_init subs pars frozen_arg =
     \<lparr> N_submodels = length subs,
       parameters = pars,
       frozen = (if frozen_arg then True else \<not> (pars = PyNone \<or> pars = PyFalse)),
       dims = map entry_dim subs,
       submodels = map entry_model subs \<rparr>"

text \<open>
  \<^verbatim>\<open>
  def _check_parameters(self, parameters=None):
      if self.frozen and parameters!=None:
          raise ValueError("This distribution is frozen! ...")
      elif not self.frozen and parameters==None:
          raise ValueError("This distribution is not frozen, but no parameters ...")
      elif self.frozen and parameters==None:
          parameters = self.parameters
      elif not self.frozen and parameters!=None:
          pass # just use what was passed in
      return parameters
  \<close>
  Python passes any object for \<^verbatim>\<open>parameters\<close> (\<^verbatim>\<open>MixtureModel\<close> checks its weights
  and its submodel parameters with the same method), so the argument has a type \<open>'q\<close> of
  its own, and the result says which of the two assignments made it: the stored
  parameters (third branch) or the supplied ones (fourth branch).

  The tests are \<^verbatim>\<open>parameters!=None\<close> and \<^verbatim>\<open>parameters==None\<close>, not \<^verbatim>\<open>is None\<close>. For
  \<^verbatim>\<open>None\<close>, \<^verbatim>\<open>False\<close>, a list, a dict or a number the comparison is a plain boolean
  (\<open>Plain\<close>). For a numpy array it is element-wise, and the result of comparing an array
  of two or more elements has no truth value: the \<^verbatim>\<open>if\<close> raises \<^verbatim>\<open>ValueError\<close> ("The
  truth value of an array with more than one element is ambiguous"). A frozen composite
  evaluates \<^verbatim>\<open>parameters!=None\<close> in the first test, an unfrozen one
  \<^verbatim>\<open>parameters==None\<close> in the second (the first one short-circuits), so both raise.
  \<open>NumpyArray a b rest\<close> is such an array, with its first two elements and the others.
  (An array of one element compares to a one-element array, whose truth value is that of
  its element: it behaves as any object that is not \<^verbatim>\<open>None\<close>.) The methods of the
  composites below take \<^verbatim>\<open>None\<close>, \<^verbatim>\<open>False\<close> or lists, and pass them on as \<open>Plain\<close>.
\<close>

datatype ('p, 'q) effective = Stored "'p pyarg" | Supplied "'q pyarg"

datatype 'q argument = Plain "'q pyarg" | NumpyArray real real "real list"

definition check_parameters ::
  "('x, 'p, 'z) ListModel_scheme \<Rightarrow> 'q argument \<Rightarrow> error + ('p, 'q) effective" where
  "check_parameters self arg =
     (case arg of
        Plain p \<Rightarrow>
          (if frozen self \<and> p \<noteq> PyNone then Inl FrozenStateViolation
           else if \<not> frozen self \<and> p = PyNone then Inl FrozenStateViolation
           else if frozen self \<and> p = PyNone then Inr (Stored (parameters self))
           else Inr (Supplied p))
      | NumpyArray a b rest \<Rightarrow> Inl ValueError)"

text \<open>The value that \<^verbatim>\<open>parameters = self._check_parameters(parameters)\<close> binds.\<close>

fun effective_value :: "('p, 'p) effective \<Rightarrow> 'p pyarg" where
  "effective_value (Stored s) = s"
| "effective_value (Supplied p) = p"

text \<open>
  \<^verbatim>\<open>
  def _freeze_submodels(self, parameters):
      if self.frozen:
          raise ValueError("This distribution is already frozen! ...")
      else:
          out_submodels = []
          for submodel, pars in zip(self.submodels,parameters):
              out_submodels += [submodel(**pars)]
      return out_submodels
  \<close>
  \<open>ps\<close> is the value of \<^verbatim>\<open>parameters\<close>, a list already read from the store;
  \<^verbatim>\<open>zip\<close> raises \<^verbatim>\<open>TypeError\<close> when it is not a list, and so does calling a
  submodel that is not callable.
\<close>

definition freeze_submodels ::
  "('x, 'p, 'z) ListModel_scheme \<Rightarrow> pars list pyarg \<Rightarrow> error + 'x dist list" where
  "freeze_submodels self ps =
     (if frozen self then Inl FrozenStateViolation
      else (case ps of
              PyVal l \<Rightarrow>
                mapM (\<lambda>(submodel, p). case call_m submodel of None \<Rightarrow> Inl TypeError | Some fz \<Rightarrow> fz p)
                  (zip (submodels self) l)
            | PyNone \<Rightarrow> Inl TypeError
            | PyFalse \<Rightarrow> Inl TypeError))"

definition split_data :: "('a ndarray, 'p, 'z) ListModel_scheme \<Rightarrow> 'a ndarray \<Rightarrow> 'a ndarray list" where
  "split_data self samples = c_split_data samples (dims self)"

section \<open>\<^verbatim>\<open>MixtureModel\<close>\<close>

text \<open>
  The own parameters of a mixture are its weights, a list of numbers that no method
  changes. \<^verbatim>\<open>MixtureModel.__init__(self, submodels, weights=None, *args, **kwargs)\<close>
  calls \<^verbatim>\<open>super().__init__(submodels, weights)\<close>: the \<^verbatim>\<open>frozen\<close> flag of the base class
  keeps its default.
\<close>

type_synonym 'x MixtureModel = "('x, real list) ListModel"

definition MixtureModel_init :: "'x entry list \<Rightarrow> real list pyarg \<Rightarrow> 'x MixtureModel" where
  "MixtureModel_init subs weights = ListModel_init subs weights False"

text \<open>
  The first lines of \<^verbatim>\<open>pdf\<close> and of \<^verbatim>\<open>rvs\<close>, up to the guard:
  \<^verbatim>\<open>
      self._check_parameters(parameters)
      weights = self._check_parameters(weights)
  \<close>
\<close>

definition checked_weights ::
  "'x MixtureModel \<Rightarrow> real list pyarg \<Rightarrow> pars list pyarg \<Rightarrow> error + real list pyarg" where
  "checked_weights self weights pars =
     bindE (check_parameters self (Plain pars)) (\<lambda>ignored.
     bindE (check_parameters self (Plain weights)) (\<lambda>eff. Inr (effective_value eff)))"

text \<open>\<^verbatim>\<open>v[i]\<close> and \<^verbatim>\<open>v[1:]\<close> of an argument that should be a list.\<close>

fun arg_list :: "'a list pyarg \<Rightarrow> error + 'a list" where
  "arg_list (PyVal xs) = Inr xs"
| "arg_list PyNone = Inl TypeError"
| "arg_list PyFalse = Inl TypeError"

definition arg_item :: "'a list pyarg \<Rightarrow> nat \<Rightarrow> error + 'a" where
  "arg_item v i = bindE (arg_list v) (\<lambda>xs. item xs i)"

text \<open>
  One term \<^verbatim>\<open>w * np.exp(m.logpdf(x,**pars))\<close> (or with \<^verbatim>\<open>logpmf\<close>), its operands
  evaluated from left to right: the weight, the submodel, its method, the parameters,
  the call. The \<^verbatim>\<open>try\<close> evaluates the whole term again with \<^verbatim>\<open>logpmf\<close> after an
  \<^verbatim>\<open>AttributeError\<close>.
\<close>

definition mix_term ::
  "('x dist \<Rightarrow> 'x logpdf_fn option) \<Rightarrow> error + real \<Rightarrow> error + 'x dist \<Rightarrow> error + pars \<Rightarrow> 'x
     \<Rightarrow> error + real" where
  "mix_term method w m p x =
     bindE w (\<lambda>w'. bindE m (\<lambda>m'.
       (case method m' of
          None \<Rightarrow> Inl AttributeError
        | Some f \<Rightarrow> bindE p (\<lambda>p'. bindE (f x p') (\<lambda>l. Inr (w' * exp l))))))"

definition mix_term_try ::
  "error + real \<Rightarrow> error + 'x dist \<Rightarrow> error + pars \<Rightarrow> 'x \<Rightarrow> error + real" where
  "mix_term_try w m p x =
     (case mix_term logpdf_m w m p x of
        Inl AttributeError \<Rightarrow> mix_term logpmf_m w m p x
      | r \<Rightarrow> r)"

text \<open>
  \<^verbatim>\<open>
  for w,submodel,pars in zip(weights[1:],self.submodels[1:],parameters[1:]):
      try:
          _pdf += w*np.exp(submodel.logpdf(x,**pars))
      except AttributeError:
          _pdf += w*np.exp(submodel.logpmf(x,**pars))
  \<close>
\<close>

fun mix_loop :: "'x \<Rightarrow> (real \<times> 'x dist \<times> pars) list \<Rightarrow> real \<Rightarrow> error + real" where
  "mix_loop x [] acc = Inr acc"
| "mix_loop x ((w, submodel, p) # rest) acc =
     bindE (mix_term_try (Inr w) (Inr submodel) (Inr p) x) (\<lambda>t. mix_loop x rest (acc + t))"

text \<open>
  \<^verbatim>\<open>
  def pdf(self, x, weights=None, parameters=None):
      x = np.array(x)
      self._check_parameters(parameters)
      weights = self._check_parameters(weights)
      if weights==None:
          raise ValueError("No mixing weights supplied!")
      if parameters==None:
          parameters = [{} for i in range(len(self.submodels))]
      try:
          _pdf = weights[0] * np.exp(self.submodels[0].logpdf(x,**parameters[0]))
      except AttributeError:
          _pdf = weights[0] * np.exp(self.submodels[0].logpmf(x,**parameters[0]))
      for w,submodel,pars in zip(...): ...
      return _pdf
  \<close>
  \<open>MixtureModel_pdf_rest\<close> is the code after the guard.
\<close>

definition MixtureModel_pdf_rest ::
  "'x MixtureModel \<Rightarrow> 'x \<Rightarrow> real list pyarg \<Rightarrow> pars list pyarg \<Rightarrow> error + real" where
  "MixtureModel_pdf_rest self x weights pars =
     (let pars' = (if pars = PyNone then PyVal (replicate (length (submodels self)) []) else pars)
      in bindE (mix_term_try (arg_item weights 0) (item (submodels self) 0) (arg_item pars' 0) x)
           (\<lambda>first.
              bindE (arg_list weights) (\<lambda>ws. bindE (arg_list pars') (\<lambda>ps.
                mix_loop x (zip (tl ws) (zip (tl (submodels self)) (tl ps))) first))))"

definition MixtureModel_pdf ::
  "'x MixtureModel \<Rightarrow> 'x \<Rightarrow> real list pyarg \<Rightarrow> pars list pyarg \<Rightarrow> error + real" where
  "MixtureModel_pdf self x weights pars =
     bindE (checked_weights self weights pars) (\<lambda>weights'.
       if weights' = PyNone then Inl MissingWeights
       else MixtureModel_pdf_rest self x weights' pars)"

text \<open>
  \<^verbatim>\<open>
  def rvs(self, size, weights=None, parameters=None):
      self._check_parameters(parameters)
      weights = self._check_parameters(weights)
      if weights==None:
          raise ValueError("No mixing weights supplied!")
      if parameters==None:
          parameters = [{} for i in range(len(self.submodels))]
      submodel_choices = np.random.choice(...)
      submodel_samples = np.array([submodel.rvs(size=size,**pars) for ...])
      _rvs = np.choose(submodel_choices, submodel_samples)
      return _rvs
  \<close>
  The draws are external (numpy's generator and the \<^verbatim>\<open>rvs\<close> of the submodels): the
  parameter \<open>sample\<close> stands for the last three statements, given the sample size, the
  weights, the submodels and the parameters.
\<close>

definition MixtureModel_rvs_rest ::
  "('s \<Rightarrow> real list pyarg \<Rightarrow> 'x dist list \<Rightarrow> pars list pyarg \<Rightarrow> error + 'r)
     \<Rightarrow> 'x MixtureModel \<Rightarrow> 's \<Rightarrow> real list pyarg \<Rightarrow> pars list pyarg \<Rightarrow> error + 'r" where
  "MixtureModel_rvs_rest sample self sz weights pars =
     (let pars' = (if pars = PyNone then PyVal (replicate (length (submodels self)) []) else pars)
      in sample sz weights (submodels self) pars')"

definition MixtureModel_rvs ::
  "('s \<Rightarrow> real list pyarg \<Rightarrow> 'x dist list \<Rightarrow> pars list pyarg \<Rightarrow> error + 'r)
     \<Rightarrow> 'x MixtureModel \<Rightarrow> 's \<Rightarrow> real list pyarg \<Rightarrow> pars list pyarg \<Rightarrow> error + 'r" where
  "MixtureModel_rvs sample self sz weights pars =
     bindE (checked_weights self weights pars) (\<lambda>weights'.
       if weights' = PyNone then Inl MissingWeights
       else MixtureModel_rvs_rest sample self sz weights' pars)"

section \<open>\<^verbatim>\<open>JointDist\<close>\<close>

text \<open>
  A \<^verbatim>\<open>JointDist\<close> holds a reference to its list of parameter mappings (its own
  parameters) and a reference to its list of log-density replacements. In the
  definitions \<open>pars\<close> stands for the source's \<^verbatim>\<open>parameters\<close>.
\<close>

record 'x JointDist = "('x, addr) ListModel" +
  submodel_logpdf_replacements :: addr

text \<open>
  \<^verbatim>\<open>
  def __init__(self, submodels, parameters=None, submodel_logpdf_replacements=None, *args, **kwargs):
      super(JointDist, self).__init__(submodels,parameters,*args,**kwargs)
      if submodel_logpdf_replacements==None:
          self.submodel_logpdf_replacements = [None for i in range(len(self.submodels))]
      else:
          self.submodel_logpdf_replacements = submodel_logpdf_replacements
  \<close>
  The list built in the first branch is a new object; the second branch stores the
  reference it was given.
\<close>

definition JointDist_init ::
  "'x heap \<Rightarrow> 'x entry list \<Rightarrow> addr pyarg \<Rightarrow> addr option \<Rightarrow> bool \<Rightarrow> 'x JointDist \<times> 'x heap" where
  "JointDist_init h subs pars repl frozen_arg =
     (let base = ListModel_init subs pars frozen_arg :: ('x, addr) ListModel;
          (a, h') = (case repl of
                       None \<Rightarrow> new_ovr_list h (replicate (length (submodels base)) None)
                     | Some given \<Rightarrow> (given, h))
      in (\<lparr> N_submodels = N_submodels base, parameters = parameters base, frozen = frozen base,
            dims = dims base, submodels = submodels base,
            submodel_logpdf_replacements = a \<rparr>, h'))"

text \<open>The list of parameter mappings that an argument refers to.\<close>

definition par_values :: "'x heap \<Rightarrow> addr pyarg \<Rightarrow> pars list pyarg" where
  "par_values h p = map_pyarg (par_lists h) p"

text \<open>
  \<^verbatim>\<open>
  def __call__(self, parameters=None):
      if self.frozen:
          raise ValueError("This distribution is already frozen! ...")
      parameters = self._check_parameters(parameters)
      frozen_submodels = self._freeze_submodels(parameters)
      return JointDist(frozen_submodels, parameters, self.submodel_logpdf_replacements)
  \<close>
\<close>

definition JointDist_call ::
  "'x heap \<Rightarrow> 'x JointDist \<Rightarrow> addr pyarg \<Rightarrow> error + ('x JointDist \<times> 'x heap)" where
  "JointDist_call h self pars =
     (if frozen self then Inl FrozenStateViolation
      else bindE (check_parameters self (Plain pars)) (\<lambda>eff.
             bindE (freeze_submodels self (par_values h (effective_value eff))) (\<lambda>frozen_submodels.
               Inr (JointDist_init h (map Bare frozen_submodels) (effective_value eff)
                      (Some (submodel_logpdf_replacements self)) False))))"

text \<open>
  \<^verbatim>\<open>
  def submodel_logpdf(self,i,x,parameters={}):
      if self.frozen and parameters!={}:
         raise ValueError("This distribution is frozen! ...")
      elif not self.frozen and parameters=={}:
         raise ValueError("This distribution is not frozen, but no parameters ...")
      try:
           _logpdf = self.submodels[i].logpdf(x,**parameters)
      except AttributeError:
           _logpdf = self.submodels[i].logpmf(x,**parameters)
      return _logpdf

  def submodel_pdf(self,i,x,parameters=None):
      return np.exp(self.submodel_logpdf(i,x,parameters))
  \<close>
\<close>

definition submodel_logpdf ::
  "('x, 'p, 'z) ListModel_scheme \<Rightarrow> nat \<Rightarrow> 'x \<Rightarrow> pars \<Rightarrow> error + real" where
  "submodel_logpdf self i x p =
     (if frozen self \<and> p \<noteq> [] then Inl FrozenStateViolation
      else if \<not> frozen self \<and> p = [] then Inl FrozenStateViolation
      else bindE (item (submodels self) i) (\<lambda>m. native_logpdf m x p))"

definition submodel_pdf ::
  "('x, 'p, 'z) ListModel_scheme \<Rightarrow> nat \<Rightarrow> 'x \<Rightarrow> pars \<Rightarrow> error + real" where
  "submodel_pdf self i x p = bindE (submodel_logpdf self i x p) (\<lambda>l. Inr (exp l))"

text \<open>
  \<^verbatim>\<open>
  def pdf(self, x, parameters=None):
      parameters = self._check_parameters(parameters)
      x_split = self.split_data(x)
      if self.submodel_logpdf_replacements[0]!=None:
          _pdf = np.exp(self.submodel_logpdf_replacements[0](x_split[0],**parameters[0]))
      else:
          _pdf = self.submodel_pdf(0,x_split[0],parameters[0])
      for i,(xi,submodel,alt_logpdf,pars) in enumerate(zip(x_split[1:],self.submodels[1:],
                                self.submodel_logpdf_replacements[1:],parameters[1:])):
          if alt_logpdf!=None:
              _pdf *= np.exp(alt_logpdf(xi,**pars))
          else:
              _pdf *= self.submodel_pdf(i+1,xi,pars)
      return _pdf
  \<close>
  \<^verbatim>\<open>pdf\<close> only reads the store.
\<close>

fun pdf_loop ::
  "('x, 'p, 'z) ListModel_scheme \<Rightarrow> nat \<Rightarrow> ('x \<times> 'x dist \<times> 'x logpdf_fn option \<times> pars) list \<Rightarrow> real
     \<Rightarrow> error + real" where
  "pdf_loop self i [] acc = Inr acc"
| "pdf_loop self i ((xi, submodel, alt_logpdf, p) # rest) acc =
     bindE (case alt_logpdf of
              Some f \<Rightarrow> bindE (f xi p) (\<lambda>l. Inr (exp l))
            | None \<Rightarrow> submodel_pdf self (i + 1) xi p)
       (\<lambda>t. pdf_loop self (Suc i) rest (acc * t))"

definition JointDist_pdf ::
  "'a ndarray heap \<Rightarrow> 'a ndarray JointDist \<Rightarrow> 'a ndarray \<Rightarrow> addr pyarg \<Rightarrow> error + real" where
  "JointDist_pdf h self x pars =
     bindE (check_parameters self (Plain pars)) (\<lambda>eff.
       let pv = par_values h (effective_value eff);
           x_split = split_data self x;
           repl = ovr_lists h (submodel_logpdf_replacements self)
       in bindE (item repl 0) (\<lambda>alt0.
          bindE (item x_split 0) (\<lambda>x0.
          bindE (arg_item pv 0) (\<lambda>p0.
          bindE (case alt0 of
                   Some f \<Rightarrow> bindE (f x0 p0) (\<lambda>l. Inr (exp l))
                 | None \<Rightarrow> submodel_pdf self 0 x0 p0) (\<lambda>first.
          bindE (arg_list pv) (\<lambda>ps.
            pdf_loop self 0
              (zip (tl x_split) (zip (tl (submodels self)) (zip (tl repl) (tl ps)))) first))))))"

text \<open>\<^verbatim>\<open>np.atleast_2d(x)\<close>.\<close>

definition atleast_2d :: "'a ndarray \<Rightarrow> 'a ndarray" where
  "atleast_2d A =
     (case shape A of
        [] \<Rightarrow> NDArray [1, 1] (elems A)
      | [k] \<Rightarrow> NDArray [1, k] (elems A)
      | k # l # sh \<Rightarrow> A)"

text \<open>
  \<^verbatim>\<open>parameters[i] = {}\<close>: the list object that \<^verbatim>\<open>parameters\<close> refers to is changed in
  place.
\<close>

definition set_par_item :: "'x heap \<Rightarrow> addr pyarg \<Rightarrow> nat \<Rightarrow> pars \<Rightarrow> error + 'x heap" where
  "set_par_item h pars i v =
     (case pars of
        PyVal a \<Rightarrow>
          if i < length (par_lists h a)
          then Inr (h\<lparr>par_lists := (par_lists h)(a := (par_lists h a)[i := v])\<rparr>)
          else Inl IndexError
      | PyNone \<Rightarrow> Inl TypeError
      | PyFalse \<Rightarrow> Inl TypeError)"

text \<open>
  \<^verbatim>\<open>
  for i in range(len(self.submodels)):
      if self.submodel_logpdf_replacements[i]==None:
          parameters[i] = {}
  \<close>
  over the indices still to visit; an exception leaves the changes made so far.
\<close>

fun mute :: "'x heap \<Rightarrow> addr \<Rightarrow> addr pyarg \<Rightarrow> nat list \<Rightarrow> error option \<times> 'x heap" where
  "mute h r pars [] = (None, h)"
| "mute h r pars (i # rest) =
     (case item (ovr_lists h r) i of
        Inl e \<Rightarrow> (Some e, h)
      | Inr alt \<Rightarrow>
          (case alt of
             Some f \<Rightarrow> mute h r pars rest
           | None \<Rightarrow>
               (case set_par_item h pars i [] of
                  Inl e \<Rightarrow> (Some e, h)
                | Inr h' \<Rightarrow> mute h' r pars rest)))"

text \<open>
  \<^verbatim>\<open>
  def logpdf_list(self, x, parameters=None):
      parameters = self._check_parameters(parameters)
      x_split = self.split_data(np.atleast_2d(x))
      if parameters == None:
          parameters = [{} for i in range(len(self.submodels))]
      if self.frozen:
          for i in range(len(self.submodels)):
              if self.submodel_logpdf_replacements[i]==None:
                  parameters[i] = {}
      _logpdf = []
      if self.submodel_logpdf_replacements[0]!=None:
          _logpdf += [self.submodel_logpdf_replacements[0](x_split[0],**parameters[0])]
      else:
          _logpdf += [self.submodel_logpdf(0,x_split[0],parameters[0])]
      if len(self.submodels)>1:
          for i,(xi,submodel,alt_logpdf,pars) in enumerate(zip(x_split[1:],self.submodels[1:],
                                self.submodel_logpdf_replacements[1:],parameters[1:])):
              if alt_logpdf!=None:
                  _logpdf += [alt_logpdf(xi,**pars)]
              else:
                  _logpdf += [self.submodel_logpdf(i+1,xi,pars)]
      return _logpdf
  \<close>
  The result is the returned list (or the exception) together with the store after the
  call. \<open>logpdf_terms\<close> is the part after the muting loop, which only reads the store.
\<close>

fun logpdf_loop ::
  "('x, 'p, 'z) ListModel_scheme \<Rightarrow> nat \<Rightarrow> ('x \<times> 'x dist \<times> 'x logpdf_fn option \<times> pars) list
     \<Rightarrow> real list \<Rightarrow> error + real list" where
  "logpdf_loop self i [] acc = Inr acc"
| "logpdf_loop self i ((xi, submodel, alt_logpdf, p) # rest) acc =
     bindE (case alt_logpdf of
              Some f \<Rightarrow> f xi p
            | None \<Rightarrow> submodel_logpdf self (i + 1) xi p)
       (\<lambda>t. logpdf_loop self (Suc i) rest (acc @ [t]))"

definition logpdf_terms ::
  "'a ndarray heap \<Rightarrow> 'a ndarray JointDist \<Rightarrow> 'a ndarray list \<Rightarrow> addr pyarg \<Rightarrow> error + real list" where
  "logpdf_terms h self x_split pars =
     (let pv = par_values h pars;
          repl = ovr_lists h (submodel_logpdf_replacements self)
      in bindE (item repl 0) (\<lambda>alt0.
         bindE (item x_split 0) (\<lambda>x0.
         bindE (arg_item pv 0) (\<lambda>p0.
         bindE (case alt0 of
                  Some f \<Rightarrow> f x0 p0
                | None \<Rightarrow> submodel_logpdf self 0 x0 p0) (\<lambda>first.
           if length (submodels self) > 1 then
             bindE (arg_list pv) (\<lambda>ps.
               logpdf_loop self 0
                 (zip (tl x_split) (zip (tl (submodels self)) (zip (tl repl) (tl ps)))) [first])
           else Inr [first])))))"

definition JointDist_logpdf_list ::
  "'a ndarray heap \<Rightarrow> 'a ndarray JointDist \<Rightarrow> 'a ndarray \<Rightarrow> addr pyarg
     \<Rightarrow> (error + real list) \<times> 'a ndarray heap" where
  "JointDist_logpdf_list h self x pars =
     (case check_parameters self (Plain pars) of
        Inl e \<Rightarrow> (Inl e, h)
      | Inr eff \<Rightarrow>
          (let x_split = split_data self (atleast_2d x);
               (pars1, h1) =
                  (if effective_value eff = PyNone
                   then (case new_par_list h (replicate (length (submodels self)) []) of
                           (a, h') \<Rightarrow> (PyVal a, h'))
                   else (effective_value eff, h));
               (raised, h2) =
                  (if frozen self
                   then mute h1 (submodel_logpdf_replacements self) pars1 [0..<length (submodels self)]
                   else (None, h1))
           in (case raised of
                 Some e \<Rightarrow> (Inl e, h2)
               | None \<Rightarrow> (logpdf_terms h2 self x_split pars1, h2))))"

text \<open>
  \<^verbatim>\<open>
  def logpdf(self, x, parameters=None):
      _logpdf_list = self.logpdf_list(x,parameters)
      _logpdf = 0
      for l in _logpdf_list:
          _logpdf += l
      return _logpdf
  \<close>
\<close>

definition JointDist_logpdf ::
  "'a ndarray heap \<Rightarrow> 'a ndarray JointDist \<Rightarrow> 'a ndarray \<Rightarrow> addr pyarg
     \<Rightarrow> (error + real) \<times> 'a ndarray heap" where
  "JointDist_logpdf h self x pars =
     (case JointDist_logpdf_list h self x pars of
        (r, h') \<Rightarrow> (bindE r (\<lambda>logpdf_list. Inr (foldl (+) 0 logpdf_list)), h'))"

text \<open>
  \<^verbatim>\<open>
  def set_submodel_logpdf(self, i, f):
      self.submodel_logpdf_replacements[i] = f

  def set_logpdf(self, listf):
      self.submodel_logpdf_replacements = listf
  \<close>
  The first changes the list object in place (\<open>i\<close> is a Python index: a negative one
  counts from the end); the second makes the attribute refer to the list it is given.
\<close>

definition py_index :: "nat \<Rightarrow> int \<Rightarrow> error + nat" where
  "py_index n i =
     (let j = (if i < 0 then i + int n else i)
      in if 0 \<le> j \<and> j < int n then Inr (nat j) else Inl IndexError)"

definition set_submodel_logpdf ::
  "'x heap \<Rightarrow> 'x JointDist \<Rightarrow> int \<Rightarrow> 'x logpdf_fn option \<Rightarrow> error + 'x heap" where
  "set_submodel_logpdf h self i f =
     (let a = submodel_logpdf_replacements self
      in bindE (py_index (length (ovr_lists h a)) i) (\<lambda>j.
           Inr (h\<lparr>ovr_lists := (ovr_lists h)(a := (ovr_lists h a)[j := f])\<rparr>)))"

definition set_logpdf :: "'x JointDist \<Rightarrow> addr \<Rightarrow> 'x JointDist" where
  "set_logpdf self listf = self\<lparr>submodel_logpdf_replacements := listf\<rparr>"

section \<open>\<^verbatim>\<open>TransDist\<close>\<close>

text \<open>
  \<^verbatim>\<open>item.split(' -> ')\<close>: the parts of the string between the occurrences of the
  separator, found from left to right.
\<close>

definition arrow :: string where
  "arrow = '' -> ''"

fun split_arrow :: "string \<Rightarrow> string \<Rightarrow> string list" where
  "split_arrow cur [] = [cur]"
| "split_arrow cur (c # cs) =
     (if take 4 (c # cs) = arrow then cur # split_arrow [] (drop 4 (c # cs))
      else split_arrow (cur @ [c]) cs)"

text \<open>
  \<^verbatim>\<open>
  renaming = {}
  if renaming_map is not None:
      for item in renaming_map:
          try:
             key,val = item.split(' -> ')
             renaming[key] = val
          except ValueError:
             print("Failed to parse parameter remapping instruction ...")
             raise
  \<close>
  The unpacking raises \<^verbatim>\<open>ValueError\<close> unless there are exactly two parts. A dict
  assignment replaces the value of a key that is present and appends a new key
  otherwise, which is \<open>AList.update\<close>.
\<close>

fun parse_rules :: "string list \<Rightarrow> (string \<times> string) list \<Rightarrow> error + (string \<times> string) list" where
  "parse_rules [] renaming = Inr renaming"
| "parse_rules (rule # rest) renaming =
     (case split_arrow [] rule of
        [key, val] \<Rightarrow> parse_rules rest (AList.update key val renaming)
      | parts \<Rightarrow> Inl ValueError)"

text \<open>
  The transform function takes and returns keyword parameters and may raise. The
  attribute \<^verbatim>\<open>transform_func\<close> stays \<^verbatim>\<open>None\<close> when no function is given together with
  an explicit \<^verbatim>\<open>func_args\<close>.
\<close>

record 'x TransDist =
  transform_func :: "(pars \<Rightarrow> error + pars) option"
  orig_dist :: "'x dist"
  renaming_map :: "(string \<times> string) list"
  args :: "string list"

definition null_transform :: "pars \<Rightarrow> error + pars" where
  "null_transform kwargs = Inr kwargs"

text \<open>
  \<^verbatim>\<open>
  for arg in fargs:
      if arg in self.renaming_map.values():
          key = [k for k,val in self.renaming_map.items() if val==arg][0] # get first match
          self.args += [key]
      else:
          self.args += [arg]
  \<close>
\<close>

definition exposed_arg :: "(string \<times> string) list \<Rightarrow> string \<Rightarrow> string" where
  "exposed_arg renaming arg =
     (case filter (\<lambda>(k, val). val = arg) renaming of
        [] \<Rightarrow> arg
      | (key, val) # others \<Rightarrow> key)"

text \<open>
  \<^verbatim>\<open>
  if func_args is None:
     if self.transform_func is None:
         self.transform_func = self.null_transform
         fargs = c.get_dist_args(self.orig_dist)
     else:
         fargs = c.get_func_args(self.transform_func)
     self.args = [...]
  else:
     self.args = func_args
  if len(self.args)==0:
     raise ValueError("Failed to find any arguments for this distribution! ...")
  \<close>
  \<^verbatim>\<open>get_dist_args\<close> and \<^verbatim>\<open>get_func_args\<close> (argument introspection, in
  \<^verbatim>\<open>JMCtools.common\<close> but not among the source files) are parameters of the model.
\<close>

definition infer_args ::
  "('x dist \<Rightarrow> error + string list) \<Rightarrow> ((pars \<Rightarrow> error + pars) \<Rightarrow> error + string list)
     \<Rightarrow> 'x dist \<Rightarrow> (pars \<Rightarrow> error + pars) option \<Rightarrow> (string \<times> string) list \<Rightarrow> string list option
     \<Rightarrow> error + ((pars \<Rightarrow> error + pars) option \<times> string list)" where
  "infer_args get_dist_args get_func_args orig tf renaming func_args =
     (case func_args of
        None \<Rightarrow>
          (case tf of
             None \<Rightarrow> bindE (get_dist_args orig) (\<lambda>fargs.
                       Inr (Some null_transform, map (exposed_arg renaming) fargs))
           | Some t \<Rightarrow> bindE (get_func_args t) (\<lambda>fargs.
                       Inr (tf, map (exposed_arg renaming) fargs)))
      | Some given \<Rightarrow> Inr (tf, given))"

definition TransDist_init ::
  "('x dist \<Rightarrow> error + string list) \<Rightarrow> ((pars \<Rightarrow> error + pars) \<Rightarrow> error + string list)
     \<Rightarrow> 'x dist \<Rightarrow> (pars \<Rightarrow> error + pars) option \<Rightarrow> string list option \<Rightarrow> string list option
     \<Rightarrow> error + 'x TransDist" where
  "TransDist_init get_dist_args get_func_args orig tf rules func_args =
     bindE (case rules of None \<Rightarrow> Inr [] | Some rs \<Rightarrow> parse_rules rs []) (\<lambda>renaming.
       bindE (infer_args get_dist_args get_func_args orig tf renaming func_args) (\<lambda>(tf', args').
         if length args' = 0 then Inl ArgumentInferenceFailure
         else Inr \<lparr> transform_func = tf', orig_dist = orig, renaming_map = renaming,
                    args = args' \<rparr>))"

text \<open>
  \<^verbatim>\<open>
  def get_orig_args(self,**parameters):
      renamed_parameters = {}
      for key, val in parameters.items():
          if key in self.renaming_map.keys():
              renamed_parameters[self.renaming_map[key]] = val
          else:
              renamed_parameters[key] = val
      return self.transform_func(**renamed_parameters)
  \<close>
\<close>

definition rename_parameters :: "(string \<times> string) list \<Rightarrow> pars \<Rightarrow> pars" where
  "rename_parameters renaming ps =
     fold (\<lambda>(key, val) renamed.
             (case map_of renaming key of
                Some new \<Rightarrow> AList.update new val renamed
              | None \<Rightarrow> AList.update key val renamed)) ps []"

definition get_orig_args :: "'x TransDist \<Rightarrow> pars \<Rightarrow> error + pars" where
  "get_orig_args self ps =
     (case transform_func self of
        None \<Rightarrow> Inl TypeError
      | Some t \<Rightarrow> t (rename_parameters (renaming_map self) ps))"

text \<open>
  \<^verbatim>\<open>
  def logpmf(self, x, **parameters):
      orig_pars = self.get_orig_args(**parameters)
      return self.orig_dist.logpmf(x,**orig_pars)

  def logpdf(self, x, **parameters):
      orig_pars = self.get_orig_args(**parameters)
      return self.orig_dist.logpdf(x,**orig_pars)

  def rvs(self, size, **parameters):
      orig_pars = self.get_orig_args(**parameters)
      try:
          samples = self.orig_dist.rvs(size=size,**orig_pars)
      except TypeError:
          six.reraise(TypeError,TypeError("Failed to run 'rvs' ..."))
      return samples
  \<close>
  The draw of the underlying distribution is external: \<open>rvs_of\<close> stands for its
  \<^verbatim>\<open>rvs\<close> method.
\<close>

definition TransDist_logpmf :: "'x TransDist \<Rightarrow> 'x \<Rightarrow> pars \<Rightarrow> error + real" where
  "TransDist_logpmf self x ps =
     bindE (get_orig_args self ps) (\<lambda>orig_pars.
       (case logpmf_m (orig_dist self) of
          None \<Rightarrow> Inl AttributeError
        | Some f \<Rightarrow> f x orig_pars))"

definition TransDist_logpdf :: "'x TransDist \<Rightarrow> 'x \<Rightarrow> pars \<Rightarrow> error + real" where
  "TransDist_logpdf self x ps =
     bindE (get_orig_args self ps) (\<lambda>orig_pars.
       (case logpdf_m (orig_dist self) of
          None \<Rightarrow> Inl AttributeError
        | Some f \<Rightarrow> f x orig_pars))"

definition TransDist_rvs ::
  "('x dist \<Rightarrow> 's \<Rightarrow> pars \<Rightarrow> error + 'r) \<Rightarrow> 'x TransDist \<Rightarrow> 's \<Rightarrow> pars \<Rightarrow> error + 'r" where
  "TransDist_rvs rvs_of self sz ps =
     bindE (get_orig_args self ps) (\<lambda>orig_pars.
       (case rvs_of (orig_dist self) sz orig_pars of
          Inl TypeError \<Rightarrow> Inl TypeError
        | samples \<Rightarrow> samples))"

text \<open>
  The renaming as the spec words it, for comparison with the code: rules are
  "original-parameter-name \<open>\<rightarrow>\<close> exposed-name", and an incoming (exposed) name is
  renamed "back to the underlying distribution's native names (reverse of the rename
  map)".
\<close>

definition spec_reverse_rename :: "(string \<times> string) list \<Rightarrow> pars \<Rightarrow> pars" where
  "spec_reverse_rename renaming ps =
     map (\<lambda>(key, val). (case filter (\<lambda>(orig, exposed). exposed = key) renaming of
                            [] \<Rightarrow> key
                          | (orig, exposed) # others \<Rightarrow> orig, val)) ps"

text \<open>The name that the code's renaming gives a key: the right-hand side of its rule.\<close>

definition forward_name :: "(string \<times> string) list \<Rightarrow> string \<Rightarrow> string" where
  "forward_name renaming key = (case map_of renaming key of Some new \<Rightarrow> new | None \<Rightarrow> key)"

section \<open>Example objects\<close>

text \<open>
  A store with no list, an unfrozen distribution with one parameter \<^verbatim>\<open>loc\<close> whose call
  gives a frozen distribution (which accepts no keyword parameter), the unfrozen
  \<^verbatim>\<open>J = JointDist([dist])\<close>, the store \<open>ex_heap\<close> with the table of \<open>J\<close> at address 0 and the
  caller's list \<^verbatim>\<open>p = [{'loc': 1}]\<close> at address 0 of the parameter lists, the frozen copy
  \<^verbatim>\<open>F = J(p)\<close>, a data array with one realisation and a replacement log-density.
\<close>

definition empty_heap :: "'x heap" where
  "empty_heap = \<lparr>par_lists = (\<lambda>a. []), next_par = 0, ovr_lists = (\<lambda>a. []), next_ovr = 0\<rparr>"

definition ex_frozen_dist :: "int ndarray dist" where
  "ex_frozen_dist = Dist (Some (\<lambda>x p. if p = [] then Inr 0 else Inl TypeError)) None None"

definition ex_dist :: "int ndarray dist" where
  "ex_dist = Dist (Some (\<lambda>x p. if map fst p = [''loc''] then Inr 0 else Inl TypeError)) None
                  (Some (\<lambda>p. if map fst p = [''loc''] then Inr ex_frozen_dist else Inl TypeError))"

definition ex_J :: "int ndarray JointDist" where
  "ex_J = fst (JointDist_init empty_heap [Bare ex_dist] PyNone None False)"

definition ex_heap :: "int ndarray heap" where
  "ex_heap = snd (new_par_list (snd (JointDist_init empty_heap [Bare ex_dist] PyNone None False))
                   [[(''loc'', 1)]])"

definition ex_F :: "int ndarray JointDist" where
  "ex_F = \<lparr> N_submodels = 1, parameters = PyVal 0, frozen = True, dims = [1],
            submodels = [ex_frozen_dist], submodel_logpdf_replacements = 0 \<rparr>"

definition ex_x :: "int ndarray" where
  "ex_x = NDArray [1, 1] [7]"

definition ex_override :: "int ndarray logpdf_fn" where
  "ex_override = (\<lambda>x p. Inr 5)"

text \<open>
  A frozen \<^verbatim>\<open>JointDist\<close> of two submodels, the second with a replacement, and the store
  after \<^verbatim>\<open>J.set_submodel_logpdf(0, ex_override)\<close>.
\<close>

definition ex_F2 :: "int ndarray JointDist" where
  "ex_F2 = \<lparr> N_submodels = 2, parameters = PyVal 0, frozen = True, dims = [1, 1],
             submodels = [ex_frozen_dist, ex_frozen_dist], submodel_logpdf_replacements = 0 \<rparr>"

definition ex_heap2 :: "int ndarray heap" where
  "ex_heap2 = \<lparr> par_lists = (\<lambda>a. [])(0 := [[(''loc'', 1)], [(''mu'', 2)]]), next_par = 1,
                ovr_lists = (\<lambda>a. [])(0 := [None, Some ex_override]), next_ovr = 1 \<rparr>"

definition ex_heap_after :: "int ndarray heap" where
  "ex_heap_after = ex_heap\<lparr>ovr_lists := (ovr_lists ex_heap)(0 := [Some ex_override])\<rparr>"

text \<open>
  A \<^verbatim>\<open>TransDist\<close> built with the rule \<^verbatim>\<open>'a -> b'\<close> over a distribution whose native
  parameter is \<^verbatim>\<open>b\<close>, with the default (null) transform.
\<close>

definition ex_T :: "unit TransDist" where
  "ex_T = \<lparr> transform_func = Some null_transform,
            orig_dist = Dist (Some (\<lambda>x p. if map fst p = [''b''] then Inr 0 else Inl TypeError)) None None,
            renaming_map = [(''a'', ''b'')], args = [''a''] \<rparr>"

section \<open>Properties of the structural map\<close>


lemma mapM_Inl_elem: "mapM g xs = Inl e \<Longrightarrow> \<exists>x\<in>set xs. g x = Inl e"
  by (induction xs) (auto split: sum.splits)

lemma mapM_isl: "x \<in> set xs \<Longrightarrow> isl (g x) \<Longrightarrow> isl (mapM g xs)"
  by (induction xs) (auto split: sum.splits)

lemma zip_star_col_nonempty: "xss \<noteq> [] \<Longrightarrow> col \<in> set (zip_star xss) \<Longrightarrow> col \<noteq> []"
  by (auto simp: zip_star_def)

lemma apply_f_error_origin:
  "apply_f f iters = Inl e \<Longrightarrow> iters \<noteq> [] \<Longrightarrow> e = StructureMismatch \<or> (\<exists>leaves. f leaves = Inl e)"
proof (induction f iters rule: apply_f.induct)
  case (1 f iters)
  show ?case
  proof (cases "list_all is_list iters")
    case True
    with "1.prems" have "mapM (\<lambda>col. apply_f f col) (zip_star (map items iters)) = Inl e"
      by (subst (asm) apply_f.simps) (simp split: sum.splits)
    then obtain col where col: "col \<in> set (zip_star (map items iters))" "apply_f f col = Inl e"
      by (auto dest: mapM_Inl_elem)
    moreover from col "1.prems" have "col \<noteq> []"
      using zip_star_col_nonempty[of "map items iters" col] by simp
    ultimately show ?thesis using "1.IH" True "1.prems" by blast
  next
    case False
    with "1.prems" show ?thesis
      by (subst (asm) apply_f.simps) (auto split: if_splits)
  qed
qed

lemma apply_f_mismatch_fails: "has_mismatch iters \<Longrightarrow> isl (apply_f f iters)"
proof (induction iters rule: has_mismatch.induct)
  case (1 iters)
  show ?case
  proof (cases "list_all is_list iters")
    case True
    with "1.prems" have ne: "iters \<noteq> []"
      and ex: "list_ex (\<lambda>col. has_mismatch col) (zip_star (map items iters))"
      by (subst (asm) has_mismatch.simps, simp split: if_splits)+
    then obtain col where col: "col \<in> set (zip_star (map items iters))" "has_mismatch col"
      by (auto simp: list_ex_iff)
    with "1.IH" True ne have "isl (apply_f f col)" by blast
    with col have "isl (mapM (\<lambda>col. apply_f f col) (zip_star (map items iters)))"
      by (auto intro: mapM_isl)
    with True ne show ?thesis
      by (subst apply_f.simps) (auto split: sum.splits)
  next
    case False
    with "1.prems" have "list_ex is_list iters"
      by (subst (asm) has_mismatch.simps) simp
    with False show ?thesis by (subst apply_f.simps) simp
  qed
qed

lemma has_mismatch_nonempty: "has_mismatch iters \<Longrightarrow> iters \<noteq> []"
  by (subst (asm) has_mismatch.simps) (auto split: if_splits)

text \<open>
  Claim C8. Whenever, at a node that the lock-step descent reaches, some of the
  corresponding inputs are lists and others are not, \<^verbatim>\<open>apply_f\<close> never returns a
  result: it ends in an error, and that error is \<open>StructureMismatch\<close> whenever the
  leaf function itself does not raise (an exception of the leaf function at an earlier
  leaf is the only other way out, by \<open>apply_f_error_origin\<close>).
\<close>

theorem apply_f_structure_mismatch:
  assumes "has_mismatch iters"
  shows "(\<exists>e. apply_f f iters = Inl e) \<and>
         ((\<forall>leaves. \<not> isl (f leaves)) \<longrightarrow> apply_f f iters = Inl StructureMismatch)"
proof -
  from assms have "isl (apply_f f iters)" by (rule apply_f_mismatch_fails)
  then obtain e where e: "apply_f f iters = Inl e" by (auto simp: isl_def)
  from apply_f_error_origin[OF e has_mismatch_nonempty[OF assms]]
  have "e = StructureMismatch \<or> (\<exists>leaves. f leaves = Inl e)" .
  with e show ?thesis by (auto simp: isl_def)
qed

theorem apply_f_structure_mismatch_witness:
  "has_mismatch [PyList [Leaf (1::nat), PyList [Leaf 2]], PyList [Leaf 1, Leaf 2]] \<and>
   apply_f (\<lambda>leaves. Inr (Leaf (0::nat)))
     [PyList [Leaf (1::nat), PyList [Leaf 2]], PyList [Leaf 1, Leaf 2]] = Inl StructureMismatch"
proof -
  have h: "has_mismatch [PyList [Leaf (1::nat), PyList [Leaf 2]], PyList [Leaf 1, Leaf 2]]"
    by (simp add: has_mismatch.simps zip_star_def)
  from apply_f_structure_mismatch[OF h, of "\<lambda>leaves. Inr (Leaf (0::nat))"] h
  show ?thesis by simp
qed

section \<open>Properties of the data slicer\<close>


lemma zip_star_single: "zip_star [xs] = map (\<lambda>x. [x]) xs"
proof -
  have "map (\<lambda>k. [xs ! k]) [0..<length xs] = map (\<lambda>x. [x]) (map ((!) xs) [0..<length xs])"
    by (simp add: comp_def)
  also have "\<dots> = map (\<lambda>x. [x]) xs"
    by (simp only: map_nth)
  finally show ?thesis by (simp add: zip_star_def)
qed

lemma mapM_map: "mapM g (map h xs) = mapM (\<lambda>x. g (h x)) xs"
  by (induction xs) (auto split: sum.splits)

lemma apply_f_unary_list:
  "apply_f f [PyList xs] =
     (case mapM (\<lambda>x. apply_f f [x]) xs of Inl e \<Rightarrow> Inl e | Inr ys \<Rightarrow> Inr (PyList ys))"
  by (subst apply_f.simps) (simp add: zip_star_single mapM_map)

lemma apply_f_unary_leaf: "apply_f f [Leaf a] = f [Leaf a]"
  by (subst apply_f.simps) simp

lemma single_row_is_sole_row_of_range:
  assumes "i \<noteq> - 1" and "single_leaf i [Leaf A] = Inr s"
  shows "\<exists>R. range_leaf i (i + 1) [Leaf A] = Inr (Leaf R) \<and> sole_row [Leaf R] = Inr s"
proof -
  from assms(2) obtain B where B: "almost_flatten A = Inr B"
    by (auto split: sum.splits)
  then obtain m k where mk: "B = NDArray [m, k] (elems A)"
    by (auto simp: almost_flatten_def split: if_splits)
  define r where "r = (if i < 0 then i + int m else i)"
  from assms(2) B mk have r: "0 \<le> r" "r < int m"
    and s: "s = Leaf (NDArray [k] (take k (drop (nat r * k) (elems A))))"
    by (auto simp: Let_def r_def split: if_splits)
  from assms(1) r have sb: "slice_bound m i = nat r" "slice_bound m (i + 1) = nat r + 1"
    by (auto simp: slice_bound_def r_def split: if_splits)
  show ?thesis
    using B mk s sb by (simp add: first_axis_row_def)
qed

lemma slice_nest:
  assumes "i \<noteq> - 1"
  shows "apply_f (single_leaf i) [v] = Inr s \<Longrightarrow>
         \<exists>r. apply_f (range_leaf i (i + 1)) [v] = Inr r \<and> apply_f sole_row [r] = Inr s"
proof (induction v arbitrary: s)
  case (Leaf A)
  then show ?case
    using single_row_is_sole_row_of_range[OF assms, of A s]
    by (auto simp: apply_f_unary_leaf)
next
  case (PyList xs)
  from PyList.prems obtain ss where ss: "mapM (\<lambda>x. apply_f (single_leaf i) [x]) xs = Inr ss"
    and s: "s = PyList ss"
    by (auto simp: apply_f_unary_list split: sum.splits)
  have "\<exists>rs. mapM (\<lambda>x. apply_f (range_leaf i (i + 1)) [x]) xs = Inr rs
            \<and> mapM (\<lambda>x. apply_f sole_row [x]) rs = Inr ss"
    using PyList.IH ss
  proof (induction xs arbitrary: ss)
    case Nil
    then show ?case by simp
  next
    case (Cons x xs)
    from Cons.prems(2) obtain y ys where y: "apply_f (single_leaf i) [x] = Inr y"
      and ys: "mapM (\<lambda>x. apply_f (single_leaf i) [x]) xs = Inr ys" and ss: "ss = y # ys"
      by (auto split: sum.splits)
    from Cons.prems(1)[of x y] y obtain r where
      r: "apply_f (range_leaf i (i + 1)) [x] = Inr r" "apply_f sole_row [r] = Inr y"
      by auto
    from Cons.IH[OF _ ys] Cons.prems(1) obtain rs where
      rs: "mapM (\<lambda>x. apply_f (range_leaf i (i + 1)) [x]) xs = Inr rs"
          "mapM (\<lambda>x. apply_f sole_row [x]) rs = Inr ys"
      by auto
    from r rs ss show ?case by simp
  qed
  then show ?case by (auto simp: apply_f_unary_list s)
qed

lemma mapM_Inr_length: "mapM g xs = Inr ys \<Longrightarrow> length ys = length xs"
  by (induction xs arbitrary: ys) (auto split: sum.splits)

text \<open>
  Claim C9, as amended. For a nested list of arrays and an index \<open>i\<close> other than \<open>-1\<close>
  that is a valid row index of every leaf (the single-index slice returns; a negative
  index counts from the end), the range slice \<open>[i, i+1)\<close> returns too, every leaf of it
  has exactly one row, and taking that row at every leaf gives the single-index slice.
  The summary count is 1 for the single-index slice and \<open>j - i\<close> for every range slice
  that returns; the second component is the last entry of the size tuple.
\<close>

theorem get_data_slice_single_vs_range:
  assumes "i \<noteq> - 1" and "get_data_slice (PyList xs, sz) i None = Inr (s, c)"
  shows "c = (1, last sz) \<and>
         (\<exists>r. get_data_slice (PyList xs, sz) i (Some (i + 1)) = Inr (r, c) \<and>
               mapM (\<lambda>v. apply_f sole_row [v]) r = Inr s) \<and>
         (\<forall>j r' c'. get_data_slice (PyList xs, sz) i (Some j) = Inr (r', c') \<longrightarrow>
               c' = (j - i, last sz))"
proof -
  from assms(2) have sz: "sz \<noteq> []" and c: "c = (1, last sz)"
    and s: "apply_f (single_leaf i) [PyList xs] = Inr (PyList s)"
    by (auto simp: get_data_slice_def apply_f_unary_list split: sum.splits if_splits)
  from slice_nest[OF assms(1) s] obtain r where
    r: "apply_f (range_leaf i (i + 1)) [PyList xs] = Inr r" "apply_f sole_row [r] = Inr (PyList s)"
    by auto
  from r(1) obtain rs where rs: "r = PyList rs"
    by (auto simp: apply_f_unary_list split: sum.splits)
  from r(2) rs have "mapM (\<lambda>v. apply_f sole_row [v]) rs = Inr s"
    by (auto simp: apply_f_unary_list split: sum.splits)
  with r(1) rs sz c have "get_data_slice (PyList xs, sz) i (Some (i + 1)) = Inr (rs, c)
      \<and> mapM (\<lambda>v. apply_f sole_row [v]) rs = Inr s"
    by (simp add: get_data_slice_def)
  moreover have "\<forall>j r' c'. get_data_slice (PyList xs, sz) i (Some j) = Inr (r', c') \<longrightarrow>
               c' = (j - i, last sz)"
    by (auto simp: get_data_slice_def split: sum.splits if_splits)
  ultimately show ?thesis using c by blast
qed

theorem get_data_slice_single_vs_range_witness:
  "get_data_slice
     (PyList [Leaf (NDArray [2, 2] [1, 2, 3, 4 :: int]), PyList [Leaf (NDArray [3, 1] [5, 6, 7])]],
      [3 :: int, 3]) 1 None
     = Inr ([Leaf (NDArray [2] [3, 4]), PyList [Leaf (NDArray [1] [6])]], (1, 3)) \<and>
   get_data_slice
     (PyList [Leaf (NDArray [2, 2] [1, 2, 3, 4 :: int]), PyList [Leaf (NDArray [3, 1] [5, 6, 7])]],
      [3 :: int, 3]) 1 (Some 2)
     = Inr ([Leaf (NDArray [1, 2] [3, 4]), PyList [Leaf (NDArray [1, 1] [6])]], (1, 3)) \<and>
   mapM (\<lambda>v. apply_f sole_row [v])
     [Leaf (NDArray [1, 2] [3, 4 :: int]), PyList [Leaf (NDArray [1, 1] [6])]]
     = Inr [Leaf (NDArray [2] [3, 4]), PyList [Leaf (NDArray [1] [6])]] \<and>
   get_data_slice
     (PyList [Leaf (NDArray [2, 2] [1, 2, 3, 4 :: int]), PyList [Leaf (NDArray [3, 1] [5, 6, 7])]],
      [3 :: int, 3]) (- 2) None
     = Inr ([Leaf (NDArray [2] [1, 2]), PyList [Leaf (NDArray [1] [6])]], (1, 3)) \<and>
   get_data_slice
     (PyList [Leaf (NDArray [2, 2] [1, 2, 3, 4 :: int]), PyList [Leaf (NDArray [3, 1] [5, 6, 7])]],
      [3 :: int, 3]) (- 2) (Some (- 1))
     = Inr ([Leaf (NDArray [1, 2] [1, 2]), PyList [Leaf (NDArray [1, 1] [6])]], (1, 3)) \<and>
   mapM (\<lambda>v. apply_f sole_row [v])
     [Leaf (NDArray [1, 2] [1, 2 :: int]), PyList [Leaf (NDArray [1, 1] [6])]]
     = Inr [Leaf (NDArray [2] [1, 2]), PyList [Leaf (NDArray [1] [6])]]"
proof -
  let ?x = "(PyList [Leaf (NDArray [2, 2] [1, 2, 3, 4 :: int]), PyList [Leaf (NDArray [3, 1] [5, 6, 7])]],
      [3 :: int, 3])"
  have h: "get_data_slice ?x 1 None
     = Inr ([Leaf (NDArray [2] [3, 4]), PyList [Leaf (NDArray [1] [6])]], (1, 3))"
    by code_simp
  have g: "get_data_slice ?x 1 (Some (1 + 1))
     = Inr ([Leaf (NDArray [1, 2] [3, 4]), PyList [Leaf (NDArray [1, 1] [6])]], (1, 3))"
    by code_simp
  have h': "get_data_slice ?x (- 2) None
     = Inr ([Leaf (NDArray [2] [1, 2]), PyList [Leaf (NDArray [1] [6])]], (1, 3))"
    by code_simp
  have g': "get_data_slice ?x (- 2) (Some (- 2 + 1))
     = Inr ([Leaf (NDArray [1, 2] [1, 2]), PyList [Leaf (NDArray [1, 1] [6])]], (1, 3))"
    by code_simp
  from get_data_slice_single_vs_range[OF _ h] g h
  have 1: "mapM (\<lambda>v. apply_f sole_row [v])
     [Leaf (NDArray [1, 2] [3, 4 :: int]), PyList [Leaf (NDArray [1, 1] [6])]]
     = Inr [Leaf (NDArray [2] [3, 4]), PyList [Leaf (NDArray [1] [6])]]"
    by auto
  from get_data_slice_single_vs_range[OF _ h'] g' h'
  have 2: "mapM (\<lambda>v. apply_f sole_row [v])
     [Leaf (NDArray [1, 2] [1, 2 :: int]), PyList [Leaf (NDArray [1, 1] [6])]]
     = Inr [Leaf (NDArray [2] [1, 2]), PyList [Leaf (NDArray [1] [6])]]"
    by auto
  from h g h' g' 1 2 show ?thesis by simp
qed

text \<open>
  Claim C9 as stated fails at the valid index \<open>-1\<close>: as a single index it selects the last
  row, while the range \<open>[-1, 0)\<close> is empty (and still reports the count \<open>0 - (-1) = 1\<close>),
  so its leaves have no row to take.
\<close>

theorem get_data_slice_last_row_counterexample:
  "get_data_slice (PyList [Leaf (NDArray [2, 2] [1, 2, 3, 4 :: int])], [2 :: int, 2]) (- 1) None
     = Inr ([Leaf (NDArray [2] [3, 4])], (1, 2)) \<and>
   get_data_slice (PyList [Leaf (NDArray [2, 2] [1, 2, 3, 4 :: int])], [2 :: int, 2]) (- 1) (Some (- 1 + 1))
     = Inr ([Leaf (NDArray [0, 2] [])], (1, 2)) \<and>
   mapM (\<lambda>v. apply_f sole_row [v]) [Leaf (NDArray [0, 2] ([] :: int list))] = Inl IndexError"
  by code_simp

section \<open>Properties of \<^verbatim>\<open>split_data\<close>\<close>


lemma length_c_split_data: "length (c_split_data x ds) = length ds"
  by (induction ds arbitrary: x) auto

lemma length_rows_elem: "row \<in> set (rows A) \<Longrightarrow> length row = last_dim A"
proof -
  assume "row \<in> set (rows A)"
  then obtain r where r: "r < length (elems A) div last_dim A"
    and row: "row = take (last_dim A) (drop (r * last_dim A) (elems A))"
    by (auto simp: rows_def)
  from r have pos: "0 < last_dim A" by (cases "last_dim A = 0") auto
  from r have "Suc r \<le> length (elems A) div last_dim A" by simp
  then have "Suc r * last_dim A \<le> length (elems A)"
    using pos by (simp add: less_eq_div_iff_mult_less_eq)
  then show ?thesis by (simp add: row)
qed

lemma rechunk_concat:
  assumes "0 < w" and "\<forall>r\<in>set rs. length r = w"
  shows "map (\<lambda>r. take w (drop (r * w) (concat rs))) [0..<length (concat rs) div w] = rs"
  using assms(2)
proof (induction rs)
  case Nil
  then show ?case by simp
next
  case (Cons a rs)
  then have la: "length a = w" and IH: "map (\<lambda>r. take w (drop (r * w) (concat rs))) [0..<length (concat rs) div w] = rs"
    by auto
  have n: "length (concat (a # rs)) div w = Suc (length (concat rs) div w)"
    using assms(1) la by simp
  have "map (\<lambda>r. take w (drop (r * w) (concat (a # rs)))) [0..<Suc (length (concat rs) div w)]
        = take w (concat (a # rs)) # map (\<lambda>r. take w (drop (Suc r * w) (concat (a # rs)))) [0..<length (concat rs) div w]"
    by (simp only: upt_conv_Cons[of 0] map_Suc_upt[symmetric]) (simp add: comp_def)
  also have "\<dots> = a # map (\<lambda>r. take w (drop (r * w) (concat rs))) [0..<length (concat rs) div w]"
    using la by simp
  finally show ?case using IH n by simp
qed

lemma rows_last_axis_slice:
  assumes "0 < min hi (last_dim A) - min lo (last_dim A)"
  shows "rows (last_axis_slice lo hi A) = map (\<lambda>row. take (hi - lo) (drop lo row)) (rows A)"
proof -
  let ?w = "min hi (last_dim A) - min lo (last_dim A)"
  let ?rs = "map (\<lambda>row. take (hi - lo) (drop lo row)) (rows A)"
  have ld: "last_dim (last_axis_slice lo hi A) = ?w"
    by (simp add: last_axis_slice_def last_dim_def split: list.splits)
  have "\<forall>r\<in>set ?rs. length r = ?w"
    by (auto simp: length_rows_elem)
  from rechunk_concat[OF assms this] show ?thesis
    by (simp add: rows_def[of "last_axis_slice lo hi A"] ld) (simp add: last_axis_slice_def)
qed

lemma last_dim_slice: "last_dim (last_axis_slice lo hi A) = min hi (last_dim A) - min lo (last_dim A)"
  by (simp add: last_axis_slice_def last_dim_def split: list.splits)

lemma concat_all_empty: "(\<forall>x\<in>set xs. f x = []) \<Longrightarrow> concat (map f xs) = []"
  by (induction xs) auto

lemma slice_of_remainder:
  "last_axis_slice lo hi (last_axis_slice d (last_dim x) x) = last_axis_slice (d + lo) (d + hi) x"
proof (cases "d < last_dim x")
  case True
  then have pos: "0 < min (last_dim x) (last_dim x) - min d (last_dim x)" by simp
  have rws: "rows (last_axis_slice d (last_dim x) x) = map (\<lambda>row. take (last_dim x - d) (drop d row)) (rows x)"
    using rows_last_axis_slice[OF pos] .
  have el: "concat (map (\<lambda>row. take (hi - lo) (drop lo row)) (rows (last_axis_slice d (last_dim x) x)))
      = concat (map (\<lambda>row. take (d + hi - (d + lo)) (drop (d + lo) row)) (rows x))"
  proof -
    have "map (\<lambda>row. take (hi - lo) (drop lo (take (last_dim x - d) (drop d row)))) (rows x)
        = map (\<lambda>row. take (d + hi - (d + lo)) (drop (d + lo) row)) (rows x)"
      by (rule map_cong) (auto simp: length_rows_elem add.commute)
    then show ?thesis unfolding rws map_map comp_def by (rule arg_cong)
  qed
  have sh: "min hi (last_dim x - min d (last_dim x)) - min lo (last_dim x - min d (last_dim x))
          = min (d + hi) (last_dim x) - min (d + lo) (last_dim x)"
    using True by (simp add: min_def)
  show ?thesis
    unfolding last_axis_slice_def[of lo hi] last_axis_slice_def[of "d + lo"] el
    using sh by (simp add: last_dim_slice) (simp add: last_axis_slice_def)
next
  case False
  then have z: "last_dim (last_axis_slice d (last_dim x) x) = 0"
    by (simp add: last_dim_slice)
  then have r0: "rows (last_axis_slice d (last_dim x) x) = []"
    by (simp add: rows_def)
  have "concat (map (\<lambda>row. take (d + hi - (d + lo)) (drop (d + lo) row)) (rows x)) = []"
    using False by (intro concat_all_empty) (auto simp: length_rows_elem)
  then show ?thesis
    unfolding last_axis_slice_def[of lo hi] last_axis_slice_def[of "d + lo"]
    using False by (simp add: r0 z) (simp add: last_axis_slice_def)
qed

lemma c_split_data_nth:
  "k < length ds \<Longrightarrow>
   c_split_data x ds ! k = last_axis_slice (sum_list (take k ds)) (sum_list (take k ds) + ds ! k) x"
proof (induction ds arbitrary: x k)
  case Nil
  then show ?case by simp
next
  case (Cons d ds)
  show ?case
  proof (cases k)
    case 0
    then show ?thesis by simp
  next
    case (Suc k')
    with Cons.prems have "k' < length ds" by simp
    from Cons.IH[OF this, of "last_axis_slice d (last_dim x) x"] Suc
    show ?thesis by (simp add: slice_of_remainder add.assoc)
  qed
qed

text \<open>
  Claim C1. For a composite with declared dimensionalities \<open>dims = [d1, ..., dn]\<close> and
  a data array \<open>x\<close>, \<open>split_data\<close> returns \<open>n\<close> sub-arrays, and the \<open>k\<close>-th one is
  the slice of the last axis of \<open>x\<close> that starts after the chunks of the submodels before
  \<open>k\<close> and has the width \<open>dk\<close>: consecutive chunks in submodel order.
\<close>

theorem split_data_chunks:
  "length (split_data self x) = length (dims self) \<and>
   (\<forall>k < length (dims self).
      split_data self x ! k =
        last_axis_slice (sum_list (take k (dims self))) (sum_list (take k (dims self)) + dims self ! k) x)"
  by (simp add: split_data_def length_c_split_data c_split_data_nth)

theorem split_data_chunks_witness:
  "length (split_data
      (ListModel_init [WithDim (Dist None None None) 1, WithDim (Dist None None None) 2]
         (PyNone :: unit pyarg) False)
      (NDArray [2, 3] [1, 2, 3, 4, 5, 6 :: int])) = 2 \<and>
   split_data
      (ListModel_init [WithDim (Dist None None None) 1, WithDim (Dist None None None) 2]
         (PyNone :: unit pyarg) False)
      (NDArray [2, 3] [1, 2, 3, 4, 5, 6 :: int]) ! 1 = NDArray [2, 2] [2, 3, 5, 6]"
proof -
  let ?S = "ListModel_init [WithDim (Dist None None None) 1, WithDim (Dist None None None) 2]
         (PyNone :: unit pyarg) False :: (int ndarray, unit) ListModel"
  let ?X = "NDArray [2, 3] [1, 2, 3, 4, 5, 6 :: int]"
  have d: "dims ?S = [1, 2]"
    by (simp add: ListModel_init_def)
  note th = split_data_chunks[of ?S ?X]
  from th d have len: "length (split_data ?S ?X) = 2" by simp
  from th have "1 < length (dims ?S) \<longrightarrow>
      split_data ?S ?X ! 1 =
        last_axis_slice (sum_list (take 1 (dims ?S))) (sum_list (take 1 (dims ?S)) + dims ?S ! 1) ?X"
    by blast
  with d have "split_data ?S ?X ! 1 =
      last_axis_slice (sum_list (take 1 [1, 2])) (sum_list (take 1 [1, 2]) + [1, 2] ! 1) ?X"
    by simp
  also have "\<dots> = NDArray [2, 2] [2, 3, 5, 6]"
    by code_simp
  finally show ?thesis using len by simp
qed

section \<open>Properties of parameter validation\<close>




section \<open>Properties of \<^verbatim>\<open>MixtureModel\<close>\<close>


lemma mix_term_try_native:
  "mix_term_try (Inr w) (Inr m) (Inr p) x = bindE (native_logpdf m x p) (\<lambda>l. Inr (w * exp l))"
  by (auto simp: mix_term_try_def mix_term_def native_logpdf_def
      split: option.splits sum.splits error.splits)

lemma mix_loop_sum:
  "length ws = length ms \<Longrightarrow> length ps = length ms \<Longrightarrow>
   (\<forall>i<length ms. native_logpdf (ms ! i) x (ps ! i) = Inr (l i)) \<Longrightarrow>
   mix_loop x (zip ws (zip ms ps)) acc = Inr (acc + (\<Sum>i<length ms. ws ! i * exp (l i)))"
proof (induction ms arbitrary: ws ps l acc)
  case Nil
  then show ?case by simp
next
  case (Cons m ms)
  from Cons.prems obtain w ws' p ps' where ws: "ws = w # ws'" and ps: "ps = p # ps'"
    by (cases ws; cases ps) auto
  from Cons.prems(3) have h0: "native_logpdf m x p = Inr (l 0)"
    and hs: "\<forall>i<length ms. native_logpdf (ms ! i) x (ps' ! i) = Inr ((l \<circ> Suc) i)"
    by (auto simp: ws ps)
  from Cons.prems ws ps have len: "length ws' = length ms" "length ps' = length ms" by auto
  have "mix_loop x (zip ws (zip (m # ms) ps)) acc
        = mix_loop x (zip ws' (zip ms ps')) (acc + w * exp (l 0))"
    by (simp add: ws ps mix_term_try_native h0)
  also have "\<dots> = Inr (acc + w * exp (l 0) + (\<Sum>i<length ms. ws' ! i * exp ((l \<circ> Suc) i)))"
    by (rule Cons.IH[OF len hs])
  also have "acc + w * exp (l 0) + (\<Sum>i<length ms. ws' ! i * exp ((l \<circ> Suc) i))
           = acc + (\<Sum>i<length (m # ms). ws ! i * exp (l i))"
    by (simp add: ws sum.lessThan_Suc_shift del: sum.lessThan_Suc)
  finally show ?case .
qed

text \<open>
  Claim C7. For an unfrozen mixture with submodels \<open>m1..mn\<close> (\<open>n \<ge> 1\<close>), weights
  \<open>w1..wn\<close> and parameter mappings \<open>p1..pn\<close>, where the log-density of every submodel
  (\<^verbatim>\<open>logpdf\<close>, or \<^verbatim>\<open>logpmf\<close> after an \<^verbatim>\<open>AttributeError\<close>) returns \<open>l i\<close> at the same,
  unsplit \<open>x\<close>, \<^verbatim>\<open>pdf\<close> returns the weighted sum of the \<open>wi * exp (l i)\<close>.
\<close>

theorem MixtureModel_pdf_weighted_sum:
  assumes "\<not> frozen self" and "submodels self \<noteq> []"
    and "length ws = length (submodels self)" and "length ps = length (submodels self)"
    and "\<forall>i<length (submodels self). native_logpdf (submodels self ! i) x (ps ! i) = Inr (l i)"
  shows "MixtureModel_pdf self x (PyVal ws) (PyVal ps)
           = Inr (\<Sum>i<length (submodels self). ws ! i * exp (l i))"
proof -
  from assms obtain m ms w ws' p ps' where
    ms: "submodels self = m # ms" and ws: "ws = w # ws'" and ps: "ps = p # ps'"
    by (cases "submodels self"; cases ws; cases ps) auto
  from assms(5) have h0: "native_logpdf m x p = Inr (l 0)"
    and hs: "\<forall>i<length ms. native_logpdf (ms ! i) x (ps' ! i) = Inr ((l \<circ> Suc) i)"
    by (auto simp: ms ps)
  from assms(3,4) have len: "length ws' = length ms" "length ps' = length ms"
    by (auto simp: ms ws ps)
  have cw: "checked_weights self (PyVal ws) (PyVal ps) = Inr (PyVal ws)"
    using assms(1) by (simp add: checked_weights_def check_parameters_def)
  have "MixtureModel_pdf self x (PyVal ws) (PyVal ps)
        = mix_loop x (zip ws' (zip ms ps')) (w * exp (l 0))"
    unfolding MixtureModel_pdf_def cw
    by (simp add: MixtureModel_pdf_rest_def arg_item_def item_def
        ms ws ps mix_term_try_native h0)
  also have "\<dots> = Inr (w * exp (l 0) + (\<Sum>i<length ms. ws' ! i * exp ((l \<circ> Suc) i)))"
    by (rule mix_loop_sum[OF len hs])
  also have "w * exp (l 0) + (\<Sum>i<length ms. ws' ! i * exp ((l \<circ> Suc) i))
           = (\<Sum>i<length (submodels self). ws ! i * exp (l i))"
    by (simp add: ms ws sum.lessThan_Suc_shift del: sum.lessThan_Suc)
  finally show ?thesis .
qed

lemma frozen_MixtureModel_init:
  "frozen (MixtureModel_init subs w0) \<Longrightarrow> parameters (MixtureModel_init subs w0) \<noteq> PyNone"
  by (auto simp: MixtureModel_init_def ListModel_init_def)

text \<open>
  Claim C10. For every mixture that the constructor builds and every call of \<^verbatim>\<open>pdf\<close> or
  \<^verbatim>\<open>rvs\<close>, the weights that reach the guard \<^verbatim>\<open>if weights==None\<close> are not \<^verbatim>\<open>None\<close>: with
  \<^verbatim>\<open>None\<close> passed, either \<^verbatim>\<open>_check_parameters\<close> has raised, or the model is frozen and
  the stored weights, which are not \<^verbatim>\<open>None\<close>, were substituted. So both methods are equal
  to themselves with the guard removed.
\<close>

theorem missing_weights_guard_unreachable:
  "(\<forall>w. checked_weights (MixtureModel_init subs w0) weights pars = Inr w \<longrightarrow> w \<noteq> PyNone) \<and>
   (weights = PyNone \<longrightarrow>
      (if frozen (MixtureModel_init subs w0) \<and> pars = PyNone
       then checked_weights (MixtureModel_init subs w0) weights pars = Inr w0 \<and> w0 \<noteq> PyNone
       else checked_weights (MixtureModel_init subs w0) weights pars = Inl FrozenStateViolation)) \<and>
   MixtureModel_pdf (MixtureModel_init subs w0) x weights pars
     = bindE (checked_weights (MixtureModel_init subs w0) weights pars)
         (\<lambda>w. MixtureModel_pdf_rest (MixtureModel_init subs w0) x w pars) \<and>
   MixtureModel_rvs sample (MixtureModel_init subs w0) sz weights pars
     = bindE (checked_weights (MixtureModel_init subs w0) weights pars)
         (\<lambda>w. MixtureModel_rvs_rest sample (MixtureModel_init subs w0) sz w pars)"
proof -
  let ?M = "MixtureModel_init subs w0"
  have nn: "w \<noteq> PyNone" if "checked_weights ?M weights pars = Inr w" for w
    using that frozen_MixtureModel_init[of subs w0]
    by (auto simp: checked_weights_def check_parameters_def split: if_splits)
  have 2: "weights = PyNone \<longrightarrow>
      (if frozen ?M \<and> pars = PyNone
       then checked_weights ?M weights pars = Inr w0 \<and> w0 \<noteq> PyNone
       else checked_weights ?M weights pars = Inl FrozenStateViolation)"
    by (auto simp: checked_weights_def check_parameters_def MixtureModel_init_def ListModel_init_def)
  have 3: "MixtureModel_pdf ?M x weights pars
     = bindE (checked_weights ?M weights pars) (\<lambda>w. MixtureModel_pdf_rest ?M x w pars)"
    using nn by (cases "checked_weights ?M weights pars") (auto simp: MixtureModel_pdf_def)
  have 4: "MixtureModel_rvs sample ?M sz weights pars
     = bindE (checked_weights ?M weights pars) (\<lambda>w. MixtureModel_rvs_rest sample ?M sz w pars)"
    using nn by (cases "checked_weights ?M weights pars") (auto simp: MixtureModel_rvs_def)
  from nn 2 3 4 show ?thesis by blast
qed


theorem MixtureModel_pdf_weighted_sum_witness:
  "MixtureModel_pdf
     (MixtureModel_init
        [Bare (Dist (Some (\<lambda>x p. Inr 0)) None None),
         Bare (Dist None (Some (\<lambda>x p. Inr (ln 2))) None)] PyNone)
     () (PyVal [0.3, 0.7]) (PyVal [[(''loc'', 1)], [(''mu'', 2)]])
   = Inr 1.7"
proof -
  let ?M = "MixtureModel_init
        [Bare (Dist (Some (\<lambda>x p. Inr 0)) None None),
         Bare (Dist None (Some (\<lambda>x p. Inr (ln 2))) None)] PyNone :: unit MixtureModel"
  let ?ps = "[[(''loc'', 1)], [(''mu'', 2)]] :: pars list"
  let ?l = "\<lambda>i::nat. if i = 0 then 0 else ln (2::real)"
  have sm: "submodels ?M = [Dist (Some (\<lambda>x p. Inr 0)) None None, Dist None (Some (\<lambda>x p. Inr (ln 2))) None]"
    and nf: "\<not> frozen ?M"
    by (simp_all add: MixtureModel_init_def ListModel_init_def)
  have nat: "\<forall>i<length (submodels ?M). native_logpdf (submodels ?M ! i) () (?ps ! i) = Inr (?l i)"
    by (auto simp: sm native_logpdf_def less_Suc_eq)
  from MixtureModel_pdf_weighted_sum[OF nf _ _ _ nat, of "[0.3, 0.7]"]
  show ?thesis
    by (simp add: sm lessThan_Suc)
qed

theorem missing_weights_guard_unreachable_witness:
  "checked_weights (MixtureModel_init ([] :: unit entry list) (PyVal [1])) PyNone PyNone = Inr (PyVal [1]) \<and>
   checked_weights (MixtureModel_init ([] :: unit entry list) PyNone) PyNone (PyVal [[]])
     = Inl FrozenStateViolation"
proof -
  have f: "frozen (MixtureModel_init ([] :: unit entry list) (PyVal [1]))"
    and u: "\<not> frozen (MixtureModel_init ([] :: unit entry list) PyNone)"
    by (simp_all add: MixtureModel_init_def ListModel_init_def)
  from missing_weights_guard_unreachable[where subs = "[] :: unit entry list" and ?w0.0 = "PyVal [1]"
      and weights = PyNone and pars = PyNone and x = "()" and sz = "()"
      and sample = "\<lambda>s w m p. Inr ()"] f
  have 1: "checked_weights (MixtureModel_init ([] :: unit entry list) (PyVal [1])) PyNone PyNone
           = Inr (PyVal [1])"
    by simp
  from missing_weights_guard_unreachable[where subs = "[] :: unit entry list" and ?w0.0 = PyNone
      and weights = PyNone and pars = "PyVal [[]]" and x = "()" and sz = "()"
      and sample = "\<lambda>s w m p. Inr ()"] u
  have 2: "checked_weights (MixtureModel_init ([] :: unit entry list) PyNone) PyNone (PyVal [[]])
           = Inl FrozenStateViolation"
    by simp
  from 1 2 show ?thesis by simp
qed

section \<open>Properties of \<^verbatim>\<open>JointDist\<close>\<close>

lemma ex_J_eq: "ex_J = \<lparr> N_submodels = 1, parameters = PyNone, frozen = False, dims = [1],
            submodels = [ex_dist], submodel_logpdf_replacements = 0 \<rparr>"
  by (simp add: ex_J_def JointDist_init_def ListModel_init_def new_ovr_list_def empty_heap_def)

lemma ex_heap_sel:
  "par_lists ex_heap 0 = [[(''loc'', 1)]]" "ovr_lists ex_heap 0 = [None]"
  by (simp_all add: ex_heap_def JointDist_init_def ListModel_init_def new_ovr_list_def
      new_par_list_def empty_heap_def)

lemma ex_F_is_frozen_copy: "JointDist_call ex_heap ex_J (PyVal 0) = Inr (ex_F, ex_heap)"
  by (simp add: JointDist_call_def ex_J_eq check_parameters_def freeze_submodels_def
      par_values_def ex_heap_sel ex_dist_def JointDist_init_def ListModel_init_def ex_F_def)

lemma ex_pdf: "JointDist_pdf ex_heap ex_F ex_x PyNone = Inl FrozenStateViolation"
  by (simp add: JointDist_pdf_def ex_F_def check_parameters_def par_values_def ex_heap_sel
      item_def arg_item_def split_data_def submodel_pdf_def submodel_logpdf_def)

lemma ex_logpdf_list_heap:
  "par_lists (snd (JointDist_logpdf_list ex_heap ex_F ex_x PyNone)) 0 = [[]]"
  by (simp add: JointDist_logpdf_list_def ex_F_def check_parameters_def ex_heap_sel
      item_def set_par_item_def split: prod.splits)

lemma ex_logpdf: "fst (JointDist_logpdf ex_heap ex_F ex_x PyNone) = Inr 0"
  by (simp add: JointDist_logpdf_def JointDist_logpdf_list_def ex_F_def check_parameters_def ex_heap_sel
      item_def set_par_item_def logpdf_terms_def par_values_def arg_item_def split_data_def
      submodel_logpdf_def native_logpdf_def ex_frozen_dist_def split: prod.splits)


lemma mute_frozen_list:
  assumes "\<forall>i\<in>set idxs. i < length (par_lists h a) \<and> i < length (ovr_lists h r)"
  shows "mute h r (PyVal a) idxs =
           (None, h\<lparr>par_lists := (par_lists h)
              (a := map (\<lambda>i. if i \<in> set idxs \<and> ovr_lists h r ! i = None then []
                               else par_lists h a ! i) [0..<length (par_lists h a)])\<rparr>)"
  using assms
proof (induction idxs arbitrary: h)
  case Nil
  have "map (\<lambda>i. par_lists h a ! i) [0..<length (par_lists h a)] = par_lists h a"
    by (rule map_nth)
  then show ?case by simp
next
  case (Cons i idxs)
  then have i: "i < length (par_lists h a)" "i < length (ovr_lists h r)" by auto
  show ?case
  proof (cases "ovr_lists h r ! i")
    case (Some f)
    have eq: "map (\<lambda>j. if j \<in> set (i # idxs) \<and> ovr_lists h r ! j = None then [] else par_lists h a ! j)
             [0..<length (par_lists h a)]
        = map (\<lambda>j. if j \<in> set idxs \<and> ovr_lists h r ! j = None then [] else par_lists h a ! j)
             [0..<length (par_lists h a)]"
      using Some by (intro map_cong) auto
    have pre: "\<forall>j\<in>set idxs. j < length (par_lists h a) \<and> j < length (ovr_lists h r)"
      using Cons.prems by simp
    have "mute h r (PyVal a) (i # idxs) = mute h r (PyVal a) idxs"
      using Some i by (simp add: item_def)
    also note Cons.IH[OF pre]
    finally show ?thesis unfolding eq .
  next
    case None
    let ?h1 = "h\<lparr>par_lists := (par_lists h)(a := (par_lists h a)[i := []])\<rparr>"
    have pre: "\<forall>j\<in>set idxs. j < length (par_lists ?h1 a) \<and> j < length (ovr_lists ?h1 r)"
      using Cons.prems by simp
    have eq: "map (\<lambda>j. if j \<in> set idxs \<and> ovr_lists ?h1 r ! j = None then [] else par_lists ?h1 a ! j)
             [0..<length (par_lists ?h1 a)]
        = map (\<lambda>j. if j \<in> set (i # idxs) \<and> ovr_lists h r ! j = None then [] else par_lists h a ! j)
             [0..<length (par_lists h a)]"
      using None i by (auto simp: nth_list_update intro!: map_cong)
    have "mute h r (PyVal a) (i # idxs) = mute ?h1 r (PyVal a) idxs"
      using None i by (simp add: item_def set_par_item_def)
    also have "\<dots> = (None, ?h1\<lparr>par_lists := (par_lists ?h1)
              (a := map (\<lambda>j. if j \<in> set idxs \<and> ovr_lists ?h1 r ! j = None then []
                               else par_lists ?h1 a ! j) [0..<length (par_lists ?h1 a)])\<rparr>)"
      by (rule Cons.IH[OF pre])
    also have "\<dots> = (None, h\<lparr>par_lists := (par_lists h)
              (a := map (\<lambda>j. if j \<in> set (i # idxs) \<and> ovr_lists h r ! j = None then []
                               else par_lists h a ! j) [0..<length (par_lists h a)])\<rparr>)"
      unfolding eq by simp
    finally show ?thesis .
  qed
qed

lemma snd_JointDist_logpdf:
  "snd (JointDist_logpdf h self x pars) = snd (JointDist_logpdf_list h self x pars)"
  by (simp add: JointDist_logpdf_def split: prod.splits)

text \<open>
  The extent of the change that \<^verbatim>\<open>logpdf_list\<close> makes to the store of a frozen
  \<^verbatim>\<open>JointDist\<close> (whose stored parameter list and replacement table have an entry for
  every submodel): in the stored parameter list, the entry of every submodel without a
  replacement becomes the empty mapping; nothing else changes.
\<close>

lemma logpdf_list_mutes_stored_parameters:
  assumes "frozen self" and "parameters self = PyVal a"
    and "length (submodels self) \<le> length (par_lists h a)"
    and "length (submodels self) \<le> length (ovr_lists h (submodel_logpdf_replacements self))"
  shows "snd (JointDist_logpdf_list h self x PyNone)
           = h\<lparr>par_lists := (par_lists h)
               (a := map (\<lambda>i. if i < length (submodels self)
                                  \<and> ovr_lists h (submodel_logpdf_replacements self) ! i = None
                               then [] else par_lists h a ! i)
                      [0..<length (par_lists h a)])\<rparr>
         \<and> snd (JointDist_logpdf h self x PyNone) = snd (JointDist_logpdf_list h self x PyNone)"
proof -
  have pre: "\<forall>i\<in>set [0..<length (submodels self)].
      i < length (par_lists h a) \<and> i < length (ovr_lists h (submodel_logpdf_replacements self))"
    using assms(3,4) by auto
  have "snd (JointDist_logpdf_list h self x PyNone)
      = snd (mute h (submodel_logpdf_replacements self) (PyVal a) [0..<length (submodels self)])"
    using assms(1,2)
    by (simp add: JointDist_logpdf_list_def check_parameters_def Let_def split: prod.splits option.splits)
  then show ?thesis
    by (simp add: mute_frozen_list[OF pre] snd_JointDist_logpdf)
qed


lemma logpdf_list_mutes_stored_parameters_example:
  "par_lists (snd (JointDist_logpdf_list ex_heap2 ex_F2 ex_x PyNone)) 0 = [[], [(''mu'', 2)]] \<and>
   ovr_lists (snd (JointDist_logpdf_list ex_heap2 ex_F2 ex_x PyNone)) 0 = [None, Some ex_override] \<and>
   par_lists (snd (JointDist_logpdf ex_heap2 ex_F2 ex_x PyNone)) 0 = [[], [(''mu'', 2)]]"
proof -
  have 1: "frozen ex_F2" and 2: "parameters ex_F2 = PyVal 0"
    and 3: "length (submodels ex_F2) \<le> length (par_lists ex_heap2 0)"
    and 4: "length (submodels ex_F2) \<le> length (ovr_lists ex_heap2 (submodel_logpdf_replacements ex_F2))"
    by (simp_all add: ex_F2_def ex_heap2_def)
  have m: "map (\<lambda>i. if i < length (submodels ex_F2)
                        \<and> ovr_lists ex_heap2 (submodel_logpdf_replacements ex_F2) ! i = None
                     then [] else par_lists ex_heap2 0 ! i)
             [0..<length (par_lists ex_heap2 0)] = [[], [(''mu'', 2)]]"
    by (simp add: ex_F2_def ex_heap2_def upt_rec[of 0] upt_rec[of 1] upt_rec[of "Suc 0"])
  from logpdf_list_mutes_stored_parameters[OF 1 2 3 4, of ex_x]
  show ?thesis
    unfolding m by (simp add: ex_heap2_def)
qed

text \<open>
  Claim C3 (the code departs from it). \<^verbatim>\<open>F = J(p)\<close> with \<^verbatim>\<open>p = [{'loc': 1}]\<close> stores the
  list object \<open>p\<close> itself. \<^verbatim>\<open>F.logpdf_list(x)\<close> (and \<^verbatim>\<open>F.logpdf(x)\<close>) binds
  \<^verbatim>\<open>parameters\<close> to that object and assigns \<^verbatim>\<open>parameters[0] = {}\<close>: afterwards the stored
  parameters of \<open>F\<close> are \<^verbatim>\<open>[{}]\<close>, not what was stored at freeze time, and so is the
  caller's \<open>p\<close>, with which \<^verbatim>\<open>J.logpdf_list(x, p)\<close> returned \<open>[0]\<close> before and raises now.
\<close>

theorem frozen_logpdf_list_overwrites_stored_parameters:
  "JointDist_call ex_heap ex_J (PyVal 0) = Inr (ex_F, ex_heap) \<and>
   frozen ex_F \<and> parameters ex_F = PyVal 0 \<and>
   par_lists ex_heap 0 = [[(''loc'', 1)]] \<and>
   par_lists (snd (JointDist_logpdf_list ex_heap ex_F ex_x PyNone)) 0 = [[]] \<and>
   par_lists (snd (JointDist_logpdf ex_heap ex_F ex_x PyNone)) 0 = [[]] \<and>
   par_lists (snd (JointDist_logpdf_list ex_heap ex_F ex_x PyNone)) 0 \<noteq> par_lists ex_heap 0 \<and>
   fst (JointDist_logpdf_list ex_heap ex_J ex_x (PyVal 0)) = Inr [0] \<and>
   fst (JointDist_logpdf_list (snd (JointDist_logpdf_list ex_heap ex_F ex_x PyNone)) ex_J ex_x (PyVal 0))
     = Inl FrozenStateViolation"
proof -
  have before: "fst (JointDist_logpdf_list ex_heap ex_J ex_x (PyVal 0)) = Inr [0]"
    by (simp add: JointDist_logpdf_list_def ex_J_eq check_parameters_def ex_heap_sel
      item_def logpdf_terms_def par_values_def arg_item_def split_data_def
      submodel_logpdf_def native_logpdf_def ex_dist_def split: prod.splits)
  have h: "par_lists (snd (JointDist_logpdf_list ex_heap ex_F ex_x PyNone)) 0 = [[]]"
    "ovr_lists (snd (JointDist_logpdf_list ex_heap ex_F ex_x PyNone)) 0 = [None]"
    by (simp_all add: JointDist_logpdf_list_def ex_F_def check_parameters_def ex_heap_sel
      item_def set_par_item_def split: prod.splits)
  have muted: "fst (JointDist_logpdf_list h' ex_J ex_x (PyVal 0)) = Inl FrozenStateViolation"
    if "par_lists h' 0 = [[]]" "ovr_lists h' 0 = [None]" for h'
    using that
    by (simp add: JointDist_logpdf_list_def ex_J_eq check_parameters_def
      item_def logpdf_terms_def par_values_def arg_item_def split_data_def
      submodel_logpdf_def split: prod.splits)
  have after: "fst (JointDist_logpdf_list (snd (JointDist_logpdf_list ex_heap ex_F ex_x PyNone))
      ex_J ex_x (PyVal 0)) = Inl FrozenStateViolation"
    by (rule muted[OF h])
  from ex_F_is_frozen_copy ex_logpdf_list_heap ex_heap_sel before after
  show ?thesis
    by (simp add: snd_JointDist_logpdf) (simp add: ex_F_def)
qed

lemma JointDist_call_shares:
  assumes "JointDist_call h J p = Inr (F, h')"
  shows "submodel_logpdf_replacements F = submodel_logpdf_replacements J \<and> parameters F = p \<and> h' = h"
  using assms
  by (auto simp: JointDist_call_def JointDist_init_def Let_def check_parameters_def
      ListModel_init_def split: if_splits sum.splits elim!: bindE.elims)

text \<open>
  Claim C4 (the code departs from it). The frozen copy \<^verbatim>\<open>F = J(p)\<close> holds the reference
  to the replacement table of \<open>J\<close>, not a copy of the list: after
  \<^verbatim>\<open>J.set_submodel_logpdf(0, f)\<close> the table of \<open>F\<close> holds \<open>f\<close> too, and \<^verbatim>\<open>F.logpdf_list(x)\<close>
  changes from the native log-density \<open>[0]\<close> to \<open>[5]\<close>, the value of \<open>f\<close>.
\<close>

theorem frozen_copy_shares_override_table:
  "JointDist_call ex_heap ex_J (PyVal 0) = Inr (ex_F, ex_heap) \<and>
   submodel_logpdf_replacements ex_F = submodel_logpdf_replacements ex_J \<and>
   set_submodel_logpdf ex_heap ex_J 0 (Some ex_override) = Inr ex_heap_after \<and>
   ovr_lists ex_heap (submodel_logpdf_replacements ex_F) = [None] \<and>
   ovr_lists ex_heap_after (submodel_logpdf_replacements ex_F) = [Some ex_override] \<and>
   fst (JointDist_logpdf_list ex_heap ex_F ex_x PyNone) = Inr [0] \<and>
   fst (JointDist_logpdf_list ex_heap_after ex_F ex_x PyNone) = Inr [5]"
proof -
  have 1: "submodel_logpdf_replacements ex_F = submodel_logpdf_replacements ex_J"
    by (simp add: ex_F_def ex_J_eq)
  have 2: "set_submodel_logpdf ex_heap ex_J 0 (Some ex_override) = Inr ex_heap_after"
    by (simp add: set_submodel_logpdf_def ex_J_eq ex_heap_sel py_index_def ex_heap_after_def)
  have 3: "ovr_lists ex_heap (submodel_logpdf_replacements ex_F) = [None]"
    "ovr_lists ex_heap_after (submodel_logpdf_replacements ex_F) = [Some ex_override]"
    by (simp_all add: ex_F_def ex_heap_sel ex_heap_after_def)
  have 4: "fst (JointDist_logpdf_list ex_heap ex_F ex_x PyNone) = Inr [0]"
    by (simp add: JointDist_logpdf_list_def ex_F_def check_parameters_def ex_heap_sel
      item_def set_par_item_def logpdf_terms_def par_values_def arg_item_def split_data_def
      submodel_logpdf_def native_logpdf_def ex_frozen_dist_def split: prod.splits)
  have 5: "fst (JointDist_logpdf_list ex_heap_after ex_F ex_x PyNone) = Inr [5]"
    by (simp add: JointDist_logpdf_list_def ex_F_def check_parameters_def ex_heap_sel ex_heap_after_def
      item_def set_par_item_def logpdf_terms_def par_values_def arg_item_def split_data_def
      ex_override_def split: prod.splits)
  from ex_F_is_frozen_copy 1 2 3 4 5 show ?thesis by simp
qed

text \<open>
  Claim C2 (the code departs from it). For the frozen copy \<^verbatim>\<open>F = J([{'loc': 1}])\<close>,
  \<^verbatim>\<open>F.pdf(x)\<close> raises (it passes the stored \<^verbatim>\<open>{'loc': 1}\<close> to \<^verbatim>\<open>submodel_pdf\<close>, which
  refuses parameters on a frozen composite), while \<^verbatim>\<open>F.logpdf(x)\<close> mutes the stored
  parameters first and returns 0: \<^verbatim>\<open>pdf\<close> is not \<open>exp\<close> of \<^verbatim>\<open>logpdf\<close> there.
\<close>

theorem frozen_pdf_raises_where_logpdf_returns:
  "JointDist_call ex_heap ex_J (PyVal 0) = Inr (ex_F, ex_heap) \<and>
   JointDist_pdf ex_heap ex_F ex_x PyNone = Inl FrozenStateViolation \<and>
   fst (JointDist_logpdf ex_heap ex_F ex_x PyNone) = Inr 0"
  using ex_F_is_frozen_copy ex_pdf ex_logpdf by simp

text \<open>
  After that call of \<^verbatim>\<open>logpdf\<close> the stored parameters are muted, and \<^verbatim>\<open>pdf\<close> returns.
\<close>

lemma ex_pdf_after_logpdf:
  "JointDist_pdf (snd (JointDist_logpdf ex_heap ex_F ex_x PyNone)) ex_F ex_x PyNone = Inr 1"
proof -
  have "par_lists (snd (JointDist_logpdf ex_heap ex_F ex_x PyNone)) 0 = [[]]"
    "ovr_lists (snd (JointDist_logpdf ex_heap ex_F ex_x PyNone)) 0 = [None]"
    by (simp_all add: snd_JointDist_logpdf JointDist_logpdf_list_def ex_F_def check_parameters_def ex_heap_sel
      item_def set_par_item_def split: prod.splits)
  then show ?thesis
    by (simp add: JointDist_pdf_def ex_F_def check_parameters_def par_values_def
      item_def arg_item_def split_data_def submodel_pdf_def submodel_logpdf_def native_logpdf_def
      ex_frozen_dist_def)
qed

text \<open>
  The same happens for a composite built frozen by the flag, without stored parameters
  (\<^verbatim>\<open>JointDist([frozen_dist], frozen=True)\<close>): \<^verbatim>\<open>logpdf_list\<close> replaces \<^verbatim>\<open>None\<close> by a list
  of empty mappings, \<^verbatim>\<open>pdf\<close> subscripts \<^verbatim>\<open>None\<close>.
\<close>

lemma frozen_flag_pdf_raises:
  "JointDist_pdf (snd (JointDist_init empty_heap [Bare ex_frozen_dist] PyNone None True))
     (fst (JointDist_init empty_heap [Bare ex_frozen_dist] PyNone None True)) ex_x PyNone
     = Inl TypeError \<and>
   fst (JointDist_logpdf (snd (JointDist_init empty_heap [Bare ex_frozen_dist] PyNone None True))
     (fst (JointDist_init empty_heap [Bare ex_frozen_dist] PyNone None True)) ex_x PyNone)
     = Inr 0"
  by (simp add: JointDist_init_def ListModel_init_def new_ovr_list_def empty_heap_def
      JointDist_pdf_def JointDist_logpdf_def JointDist_logpdf_list_def check_parameters_def
      par_values_def item_def arg_item_def split_data_def new_par_list_def set_par_item_def
      logpdf_terms_def submodel_logpdf_def native_logpdf_def ex_frozen_dist_def
      split: prod.splits)

text \<open>
  Where \<^verbatim>\<open>pdf\<close> and \<^verbatim>\<open>logpdf\<close> run the same steps they agree: for an unfrozen
  \<^verbatim>\<open>JointDist\<close> and data of at least two dimensions (so that \<^verbatim>\<open>np.atleast_2d\<close> changes
  nothing), \<^verbatim>\<open>pdf\<close> is \<open>exp\<close> of \<^verbatim>\<open>logpdf\<close>, exceptions included.
\<close>

lemma atleast_2d_id: "2 \<le> length (shape x) \<Longrightarrow> atleast_2d x = x"
  by (cases x) (auto simp: atleast_2d_def split: list.splits)

lemma pdf_loop_exp_logpdf_loop:
  "pdf_loop self i zs (exp (foldl (+) 0 acc))
     = bindE (logpdf_loop self i zs acc) (\<lambda>ls. Inr (exp (foldl (+) 0 ls)))"
proof (induction zs arbitrary: i acc)
  case Nil
  then show ?case by simp
next
  case (Cons z zs)
  obtain xi submodel alt p where z: "z = (xi, submodel, alt, p)" by (cases z) auto
  let ?t = "case alt of Some f \<Rightarrow> f xi p | None \<Rightarrow> submodel_logpdf self (i + 1) xi p"
  have t: "(case alt of Some f \<Rightarrow> bindE (f xi p) (\<lambda>l. Inr (exp l))
            | None \<Rightarrow> submodel_pdf self (i + 1) xi p) = bindE ?t (\<lambda>l. Inr (exp l))"
    by (simp add: submodel_pdf_def split: option.splits)
  show ?case
  proof (cases ?t)
    case (Inl e)
    then show ?thesis unfolding z pdf_loop.simps logpdf_loop.simps t by simp
  next
    case (Inr l)
    have "exp (foldl (+) 0 acc) * exp l = exp (foldl (+) 0 (acc @ [l]))"
      by (simp add: exp_add)
    with Inr Cons.IH[of "Suc i" "acc @ [l]"] show ?thesis
      unfolding z pdf_loop.simps logpdf_loop.simps t by simp
  qed
qed

lemma JointDist_pdf_exp_logpdf_unfrozen:
  assumes "\<not> frozen self" and "2 \<le> length (shape x)"
  shows "JointDist_pdf h self x pars
           = bindE (fst (JointDist_logpdf h self x pars)) (\<lambda>l. Inr (exp l))"
proof (cases "pars = PyNone")
  case True
  with assms(1) show ?thesis
    by (simp add: JointDist_pdf_def JointDist_logpdf_def JointDist_logpdf_list_def check_parameters_def)
next
  case False
  let ?pv = "par_values h pars"
  let ?xs = "split_data self x"
  let ?repl = "ovr_lists h (submodel_logpdf_replacements self)"
  have lp: "fst (JointDist_logpdf h self x pars)
      = bindE (logpdf_terms h self ?xs pars) (\<lambda>ls. Inr (foldl (+) 0 ls))"
    using assms False
    by (simp add: JointDist_logpdf_def JointDist_logpdf_list_def check_parameters_def
        atleast_2d_id split: prod.splits)
  have pd: "JointDist_pdf h self x pars
      = bindE (item ?repl 0) (\<lambda>alt0.
          bindE (item ?xs 0) (\<lambda>x0.
          bindE (arg_item ?pv 0) (\<lambda>p0.
          bindE (case alt0 of
                   Some f \<Rightarrow> bindE (f x0 p0) (\<lambda>l. Inr (exp l))
                 | None \<Rightarrow> submodel_pdf self 0 x0 p0) (\<lambda>first.
          bindE (arg_list ?pv) (\<lambda>ps.
            pdf_loop self 0
              (zip (tl ?xs) (zip (tl (submodels self)) (zip (tl ?repl) (tl ps)))) first)))))"
    using assms False by (simp add: JointDist_pdf_def check_parameters_def Let_def)
  show ?thesis
  proof (cases "item ?repl 0")
    case (Inl e)
    then show ?thesis by (simp add: lp pd logpdf_terms_def)
  next
    case alt0: (Inr alt0)
    show ?thesis
    proof (cases "item ?xs 0")
      case (Inl e)
      then show ?thesis by (simp add: lp pd logpdf_terms_def alt0)
    next
      case x0: (Inr x0)
      show ?thesis
      proof (cases "arg_item ?pv 0")
        case (Inl e)
        then show ?thesis by (simp add: lp pd logpdf_terms_def alt0 x0)
      next
        case p0: (Inr p0)
        then obtain ps where ps: "arg_list ?pv = Inr ps"
          by (cases "arg_list ?pv") (auto simp: arg_item_def)
        let ?t = "case alt0 of Some f \<Rightarrow> f x0 p0 | None \<Rightarrow> submodel_logpdf self 0 x0 p0"
        have t: "(case alt0 of Some f \<Rightarrow> bindE (f x0 p0) (\<lambda>l. Inr (exp l))
                  | None \<Rightarrow> submodel_pdf self 0 x0 p0) = bindE ?t (\<lambda>l. Inr (exp l))"
          by (simp add: submodel_pdf_def split: option.splits)
        show ?thesis
        proof (cases ?t)
          case (Inl e)
          then show ?thesis by (simp add: lp pd logpdf_terms_def alt0 x0 p0 t)
        next
          case (Inr l)
          let ?zs = "zip (tl ?xs) (zip (tl (submodels self)) (zip (tl ?repl) (tl ps)))"
          have loop: "pdf_loop self 0 ?zs (exp l)
              = bindE (logpdf_loop self 0 ?zs [l]) (\<lambda>ls. Inr (exp (foldl (+) 0 ls)))"
            using pdf_loop_exp_logpdf_loop[of self 0 ?zs "[l]"] by simp
          have short: "?zs = []" if "\<not> 1 < length (submodels self)"
          proof -
            from that have "tl (submodels self) = []" by (cases "submodels self") auto
            then show ?thesis by simp
          qed
          have "bindE (logpdf_terms h self ?xs pars) (\<lambda>ls. Inr (exp (foldl (+) 0 ls)))
                = pdf_loop self 0 ?zs (exp l)"
          proof (cases "1 < length (submodels self)")
            case True
            then show ?thesis
              by (simp add: logpdf_terms_def alt0 x0 p0 ps Inr loop)
          next
            case False
            have z: "?zs = []" by (rule short[OF False])
            have "pdf_loop self 0 ?zs (exp l) = Inr (exp l)"
              unfolding z by simp
            moreover have "bindE (logpdf_terms h self ?xs pars) (\<lambda>ls. Inr (exp (foldl (+) 0 ls)))
                = Inr (exp l)"
              using False by (simp add: logpdf_terms_def alt0 x0 p0 ps Inr)
            ultimately show ?thesis by simp
          qed
          moreover have "bindE (bindE (logpdf_terms h self ?xs pars) (\<lambda>ls. Inr (foldl (+) 0 ls)))
                  (\<lambda>l. Inr (exp l))
                = bindE (logpdf_terms h self ?xs pars) (\<lambda>ls. Inr (exp (foldl (+) 0 ls)))"
            by (cases "logpdf_terms h self ?xs pars") auto
          ultimately show ?thesis
            by (simp add: lp pd alt0 x0 p0 ps t Inr)
        qed
      qed
    qed
  qed
qed

section \<open>Properties of \<^verbatim>\<open>TransDist\<close>\<close>


lemma split_arrow_no_space:
  "CHR '' '' \<notin> set a \<Longrightarrow> split_arrow cur (a @ rest) = split_arrow (cur @ a) rest"
proof (induction a arbitrary: cur)
  case Nil
  then show ?case by simp
next
  case (Cons c a)
  then have "c \<noteq> CHR '' ''" by auto
  then have "take 4 (c # a @ rest) \<noteq> arrow"
    by (auto simp: arrow_def take_Cons')
  with Cons show ?case by simp
qed

lemma split_arrow_at_arrow: "split_arrow cur (arrow @ rest) = cur # split_arrow [] rest"
  by (simp add: arrow_def)

lemma split_arrow_rule:
  assumes "CHR '' '' \<notin> set a" and "CHR '' '' \<notin> set b"
  shows "split_arrow [] (a @ '' -> '' @ b) = [a, b]"
proof -
  have "split_arrow [] (a @ arrow @ b) = split_arrow a (arrow @ b)"
    using split_arrow_no_space[OF assms(1), of "[]" "arrow @ b"] by simp
  also have "\<dots> = a # split_arrow [] (b @ [])"
    by (simp add: split_arrow_at_arrow)
  also have "split_arrow [] (b @ []) = [b]"
    using split_arrow_no_space[OF assms(2), of "[]" "[]"] by simp
  finally show ?thesis by (simp add: arrow_def)
qed

lemma update_fresh: "k \<notin> fst ` set al \<Longrightarrow> AList.update k v al = al @ [(k, v)]"
  by (induction al) auto

lemma parse_rules_pairs:
  assumes "\<forall>(a, b)\<in>set pairs. CHR '' '' \<notin> set a \<and> CHR '' '' \<notin> set b"
    and "distinct (map fst acc @ map fst pairs)"
  shows "parse_rules (map (\<lambda>(a, b). a @ '' -> '' @ b) pairs) acc = Inr (acc @ pairs)"
  using assms
proof (induction pairs arbitrary: acc)
  case Nil
  then show ?case by simp
next
  case (Cons ab pairs)
  obtain a b where ab: "ab = (a, b)" by (cases ab)
  from Cons.prems(1) ab have "split_arrow [] (a @ '' -> '' @ b) = [a, b]"
    by (intro split_arrow_rule) auto
  then have sp: "split_arrow [] (a @ CHR '' '' # CHR ''-'' # CHR ''>'' # CHR '' '' # b) = [a, b]"
    by simp
  from Cons.prems(2) ab have fresh: "a \<notin> fst ` set acc" by auto
  have d: "distinct (map fst (acc @ [(a, b)]) @ map fst pairs)"
    using Cons.prems(2) ab by auto
  from Cons.prems(1) have "\<forall>(a, b)\<in>set pairs. CHR '' '' \<notin> set a \<and> CHR '' '' \<notin> set b"
    by simp
  from Cons.IH[OF this d] show ?case
    by (simp add: ab sp update_fresh[OF fresh])
qed

lemma rename_fold:
  "distinct (map fst acc @ map (forward_name r) (map fst ps)) \<Longrightarrow>
   fold (\<lambda>(key, val) renamed.
           (case map_of r key of
              Some new \<Rightarrow> AList.update new val renamed
            | None \<Rightarrow> AList.update key val renamed)) ps acc
     = acc @ map (\<lambda>(k, v). (forward_name r k, v)) ps"
proof (induction ps arbitrary: acc)
  case Nil
  then show ?case by simp
next
  case (Cons kv ps)
  obtain k v where kv: "kv = (k, v)" by (cases kv)
  have step: "(case map_of r k of Some new \<Rightarrow> AList.update new v acc | None \<Rightarrow> AList.update k v acc)
      = acc @ [(forward_name r k, v)]"
    using Cons.prems kv by (auto simp: forward_name_def update_fresh split: option.splits)
  have d: "distinct (map fst (acc @ [(forward_name r k, v)]) @ map (forward_name r) (map fst ps))"
    using Cons.prems kv by auto
  show ?case
    using Cons.IH[OF d] by (simp add: kv step)
qed

lemma rename_parameters_map:
  "distinct (map (forward_name r) (map fst ps)) \<Longrightarrow>
   rename_parameters r ps = map (\<lambda>(k, v). (forward_name r k, v)) ps"
  using rename_fold[of "[]" r ps] by (simp add: rename_parameters_def)

lemma bindE_eq_Inr: "bindE m k = Inr y \<longleftrightarrow> (\<exists>v. m = Inr v \<and> k v = Inr y)"
  by (cases m) auto

lemma TransDist_init_fields:
  assumes "TransDist_init gda gfa orig tf rules fa = Inr T"
  shows "orig_dist T = orig \<and>
         (case rules of None \<Rightarrow> Inr [] | Some rs \<Rightarrow> parse_rules rs []) = Inr (renaming_map T)"
proof -
  let ?R = "case rules of None \<Rightarrow> Inr [] | Some rs \<Rightarrow> parse_rules rs []"
  from assms obtain renaming where R: "?R = Inr renaming"
    unfolding TransDist_init_def by (cases ?R) auto
  from assms obtain tf' args' where A: "infer_args gda gfa orig tf renaming fa = Inr (tf', args')"
    by (cases "infer_args gda gfa orig tf renaming fa") (auto simp: TransDist_init_def R)
  from assms have "T = \<lparr> transform_func = tf', orig_dist = orig, renaming_map = renaming,
                    args = args' \<rparr>"
    by (simp add: TransDist_init_def R A split: if_splits)
  with R show ?thesis by simp
qed

text \<open>
  Claim C6, as amended. For a \<^verbatim>\<open>TransDist\<close> built with rules \<^verbatim>\<open>'a -> b'\<close> (names without
  spaces, every \<open>a\<close> in one rule only) and with transform function \<open>t\<close>, the rename map
  sends \<open>a\<close> to \<open>b\<close>, and \<^verbatim>\<open>get_orig_args\<close> renames every incoming key \<open>a\<close> of a rule to
  its \<open>b\<close> (the forward direction of the map: \<open>a\<close> is the exposed name, \<open>b\<close> the name the
  transform function takes), leaves the other keys, and applies \<open>t\<close> (when no two
  incoming keys end up with the same name); \<^verbatim>\<open>logpdf\<close>, \<^verbatim>\<open>logpmf\<close> and \<^verbatim>\<open>rvs\<close> call
  the underlying distribution with the result.
\<close>

theorem get_orig_args_forward_rename:
  assumes "TransDist_init gda gfa orig tf (Some (map (\<lambda>(a, b). a @ '' -> '' @ b) pairs)) fa = Inr T"
    and "\<forall>(a, b)\<in>set pairs. CHR '' '' \<notin> set a \<and> CHR '' '' \<notin> set b"
    and "distinct (map fst pairs)"
    and "distinct (map (forward_name pairs) (map fst p))"
    and "transform_func T = Some t"
  shows "renaming_map T = pairs \<and>
         get_orig_args T p = t (map (\<lambda>(k, v). (forward_name pairs k, v)) p) \<and>
         TransDist_logpdf T x p
           = bindE (t (map (\<lambda>(k, v). (forward_name pairs k, v)) p))
               (\<lambda>q. case logpdf_m orig of None \<Rightarrow> Inl AttributeError | Some f \<Rightarrow> f x q) \<and>
         TransDist_logpmf T x p
           = bindE (t (map (\<lambda>(k, v). (forward_name pairs k, v)) p))
               (\<lambda>q. case logpmf_m orig of None \<Rightarrow> Inl AttributeError | Some f \<Rightarrow> f x q) \<and>
         TransDist_rvs rvs_of T sz p
           = bindE (t (map (\<lambda>(k, v). (forward_name pairs k, v)) p)) (\<lambda>q. rvs_of orig sz q)"
proof -
  from TransDist_init_fields[OF assms(1)]
  have od: "orig_dist T = orig"
    and pr: "parse_rules (map (\<lambda>(a, b). a @ '' -> '' @ b) pairs) [] = Inr (renaming_map T)"
    by (simp_all del: map_map)
  from parse_rules_pairs[OF assms(2), of "[]"] assms(3) pr
  have rm: "renaming_map T = pairs" by simp
  have g: "get_orig_args T p = t (map (\<lambda>(k, v). (forward_name pairs k, v)) p)"
    by (simp add: get_orig_args_def assms(5) rm rename_parameters_map[OF assms(4)])
  have r: "(case rvs_of orig sz q of Inl TypeError \<Rightarrow> Inl TypeError | samples \<Rightarrow> samples)
             = rvs_of orig sz q" for q
    by (auto split: sum.splits error.splits)
  show ?thesis
    by (simp add: rm g TransDist_logpdf_def TransDist_logpmf_def TransDist_rvs_def od r)
qed

lemma ex_T_built:
  "TransDist_init (\<lambda>d. Inr [''b'']) (\<lambda>t. Inr [])
     (Dist (Some (\<lambda>x p. if map fst p = [''b''] then Inr 0 else Inl TypeError)) None None)
     None (Some [''a -> b'']) None = Inr ex_T"
  by (simp add: TransDist_init_def infer_args_def arrow_def exposed_arg_def ex_T_def)

theorem get_orig_args_forward_rename_witness:
  "get_orig_args ex_T [(''a'', 1), (''c'', 2)] = Inr [(''b'', 1), (''c'', 2)] \<and>
   TransDist_logpdf ex_T () [(''a'', 1)] = Inr 0"
proof -
  have 1: "TransDist_init (\<lambda>d. Inr [''b'']) (\<lambda>t. Inr [])
     (Dist (Some (\<lambda>x p. if map fst p = [''b''] then Inr 0 else Inl TypeError)) None None)
     None (Some (map (\<lambda>(a, b). a @ '' -> '' @ b) [(''a'', ''b'')])) None = Inr ex_T"
    using ex_T_built by simp
  have 2: "\<forall>(a, b)\<in>set [(''a'', ''b'')]. CHR '' '' \<notin> set a \<and> CHR '' '' \<notin> set b"
    by simp
  have 3: "distinct (map fst [(''a'', ''b'')])" by simp
  have 4: "distinct (map (forward_name [(''a'', ''b'')]) (map fst [(''a'', 1::real), (''c'', 2)]))"
    by (simp add: forward_name_def)
  have d1: "distinct (map (forward_name [(''a'', ''b'')]) (map fst [(''a'', 1::real)]))"
    by simp
  have 5: "transform_func ex_T = Some null_transform" by (simp add: ex_T_def)
  from get_orig_args_forward_rename[OF 1 2 3 4 5, of "()" "\<lambda>d s q. Inr ()" "()"]
  have a: "get_orig_args ex_T [(''a'', 1), (''c'', 2)] = Inr [(''b'', 1), (''c'', 2)]"
    by (simp add: forward_name_def null_transform_def)
  from get_orig_args_forward_rename[OF 1 2 3 d1 5, of "()" "\<lambda>d s q. Inr ()" "()"]
  have b: "TransDist_logpdf ex_T () [(''a'', 1)] = Inr 0"
    by (simp add: forward_name_def null_transform_def)
  from a b show ?thesis by simp
qed

text \<open>
  Claim C6 as stated fails: with the rule \<^verbatim>\<open>'a -> b'\<close> read as original \<open>a\<close>, exposed \<open>b\<close>,
  the incoming \<^verbatim>\<open>{'b': 1}\<close> would be renamed back to \<^verbatim>\<open>{'a': 1}\<close>; the code leaves it as
  it is (and renames an incoming \<open>a\<close> to \<open>b\<close>).
\<close>

theorem get_orig_args_reverse_rename_counterexample:
  "get_orig_args ex_T [(''b'', 1)] = Inr [(''b'', 1)] \<and>
   null_transform (spec_reverse_rename (renaming_map ex_T) [(''b'', 1)]) = Inr [(''a'', 1)] \<and>
   get_orig_args ex_T [(''b'', 1)] \<noteq> null_transform (spec_reverse_rename (renaming_map ex_T) [(''b'', 1)])"
  by (simp add: get_orig_args_def ex_T_def rename_parameters_def null_transform_def
      spec_reverse_rename_def)

end
